theory Spec2Isabelle
  imports Main
begin

section \<open>Python primitives used by the bot\<close>

text \<open>
  Python strings are modelled as \<open>string\<close> (a list of 8-bit characters), byte strings
  as \<open>bytes\<close>. Python's unbounded integers are \<open>int\<close>.
\<close>

type_synonym bytes = "char list"

definition nl :: char where
  "nl = CHR 0x0A"

text \<open>\<^verbatim>\<open>xs[:n]\<close>: a negative bound counts from the end.\<close>

definition py_prefix :: "'a list \<Rightarrow> int \<Rightarrow> 'a list" where
  "py_prefix xs n =
     (if 0 \<le> n then take (nat n) xs else take (nat (int (length xs) + n)) xs)"

text \<open>\<^verbatim>\<open>xs[-10:]\<close>: the last ten elements, or all of \<open>xs\<close> when it is shorter.\<close>

definition last10 :: "'a list \<Rightarrow> 'a list" where
  "last10 xs = drop (length xs - 10) xs"

text \<open>\<^verbatim>\<open>s.rfind(c)\<close>: the highest index of \<open>c\<close> in \<open>s\<close>, or \<open>-1\<close>.\<close>

primrec rfind :: "'a list \<Rightarrow> 'a \<Rightarrow> int" where
  "rfind [] c = - 1"
| "rfind (x # xs) c =
     (let r = rfind xs c in if 0 \<le> r then r + 1 else if x = c then 0 else - 1)"

text \<open>
  \<^verbatim>\<open>str.isspace\<close> on the code points below 256, and \<^verbatim>\<open>s.strip()\<close>.
\<close>

definition py_isspace :: "char \<Rightarrow> bool" where
  "py_isspace c =
     (let n = (of_char c :: nat)
      in (9 \<le> n \<and> n \<le> 13) \<or> (28 \<le> n \<and> n \<le> 32) \<or> n = 133 \<or> n = 160)"

definition strip :: "string \<Rightarrow> string" where
  "strip s = rev (dropWhile py_isspace (rev (dropWhile py_isspace s)))"

section \<open>ResponseFormatter: \<open>chunk_text\<close> (bot.py, lines 474--487)\<close>

definition TELEGRAM_MAX_MESSAGE :: int where
  "TELEGRAM_MAX_MESSAGE = 4000"

text \<open>
  The body of the \<^verbatim>\<open>while\<close> loop up to the chunk it emits (lines 480--484):
  the window \<^verbatim>\<open>text[:max_len]\<close>, cut back to just after its last newline when
  that newline lies at an index greater than \<^verbatim>\<open>max_len // 2\<close>.
\<close>

definition cut_chunk :: "string \<Rightarrow> int \<Rightarrow> string" where
  "cut_chunk text max_len =
     (let chunk = py_prefix text max_len;
          last_nl = rfind chunk nl
      in if last_nl > max_len div 2 then py_prefix text (last_nl + 1) else chunk)"

text \<open>
  The loop \<^verbatim>\<open>while text: ...\<close>. It does not terminate for every \<open>max_len\<close>
  (with \<open>max_len = 0\<close> the emitted chunk is empty and the text never shrinks), so
  the result is optional: \<open>None\<close> stands for a run that never returns.
\<close>

partial_function (option) chunk_loop :: "string \<Rightarrow> int \<Rightarrow> string list \<Rightarrow> string list option"
  where
  "chunk_loop text max_len chunks =
     (if text = [] then Some chunks
      else let chunk = cut_chunk text max_len
           in chunk_loop (drop (length chunk) text) max_len (chunks @ [chunk]))"

declare chunk_loop.simps [code]

definition chunk_text :: "string \<Rightarrow> int \<Rightarrow> string list option" where
  "chunk_text text max_len =
     (if int (length text) \<le> max_len then Some (if text \<noteq> [] then [text] else [])
      else chunk_loop text max_len [])"

section \<open>Transport events\<close>

text \<open>
  The fields of a Telegram update that the handlers read. \<open>upd_user_id\<close> is
  \<^verbatim>\<open>update.effective_user.id\<close>.
\<close>

record photo_size =
  ps_file_id :: string
  ps_file_size :: int

record document =
  doc_file_id :: string
  doc_mime_type :: "string option"

record message =
  msg_text :: "string option"
  msg_caption :: "string option"
  msg_media_group_id :: "string option"
  msg_photo :: "photo_size list"
  msg_document :: "document option"

record update =
  upd_user_id :: int
  upd_message :: message

text \<open>\<^verbatim>\<open>x or ""\<close> and the truth value of an optional string.\<close>

definition or_empty :: "string option \<Rightarrow> string" where
  "or_empty x = (case x of None \<Rightarrow> [] | Some s \<Rightarrow> s)"

definition truthy :: "string option \<Rightarrow> bool" where
  "truthy x = (case x of None \<Rightarrow> False | Some s \<Rightarrow> s \<noteq> [])"

text \<open>
  \<^verbatim>\<open>max(message.photo, key=lambda p: p.file_size)\<close>: the first maximal element. Every
  size is taken to be present.
\<close>

fun max_by_size :: "photo_size \<Rightarrow> photo_size list \<Rightarrow> photo_size" where
  "max_by_size best [] = best"
| "max_by_size best (p # ps) =
     max_by_size (if ps_file_size p > ps_file_size best then p else best) ps"

text \<open>Lines 324--328: the file id an album part contributes, if any.\<close>

definition album_file_id :: "message \<Rightarrow> string option" where
  "album_file_id m =
     (case msg_photo m of
        p # ps \<Rightarrow> Some (ps_file_id (max_by_size p ps))
      | [] \<Rightarrow>
         (case msg_document m of
            None \<Rightarrow> None
          | Some d \<Rightarrow>
              if take 6 (or_empty (doc_mime_type d)) = ''image/'' then Some (doc_file_id d)
              else None))"

section \<open>Session store and album registry\<close>

text \<open>
  \<^verbatim>\<open>context.user_data\<close> is a dictionary with the keys \<^verbatim>\<open>"model"\<close> and
  \<^verbatim>\<open>"pending_images"\<close>, each of which may be absent. \<^verbatim>\<open>application.user_data\<close>
  maps a user id to that dictionary (a missing user has the empty one), and
  \<^verbatim>\<open>media_groups\<close> maps a group id to the album collected so far.
\<close>

record user_data =
  ud_model :: "string option"
  ud_pending_images :: "bytes list option"

record group =
  g_file_ids :: "string list"
  g_caption :: string
  g_user_id :: int
  g_first_update :: update

record bot_state =
  app_user_data :: "int \<Rightarrow> user_data"
  media_groups :: "string \<rightharpoonup> group"

definition DEFAULT_MODEL :: string where
  "DEFAULT_MODEL = ''gpt-image-1.5''"

definition MODEL_LABELS :: "(string \<times> string) list" where
  "MODEL_LABELS =
     [(''gpt-image-1'', ''gpt-image-1''),
      (''gpt-image-1.5'', ''gpt-image-1.5''),
      (''dall-e-2'', ''DALL-E 2''),
      (''create'', ''gpt-image-1.5 (create)''),
      (''dalle_create'', ''DALL-E 2 (create)'')]"

definition model_label :: "string \<Rightarrow> string" where
  "model_label m = (case map_of MODEL_LABELS m of Some l \<Rightarrow> l | None \<Rightarrow> m)"

definition set_model :: "user_data \<Rightarrow> string \<Rightarrow> user_data" where
  "set_model ud m = ud\<lparr>ud_model := Some m\<rparr>"

definition get_model :: "user_data \<Rightarrow> string" where
  "get_model ud = (case ud_model ud of None \<Rightarrow> DEFAULT_MODEL | Some m \<Rightarrow> m)"

text \<open>\<^verbatim>\<open>user_data.get("pending_images", [])\<close> and \<^verbatim>\<open>user_data["pending_images"] = v\<close>.\<close>

definition get_pending :: "user_data \<Rightarrow> bytes list" where
  "get_pending ud = (case ud_pending_images ud of None \<Rightarrow> [] | Some xs \<Rightarrow> xs)"

definition put_pending :: "bot_state \<Rightarrow> int \<Rightarrow> bytes list \<Rightarrow> bot_state" where
  "put_pending st uid v =
     st\<lparr>app_user_data := (app_user_data st)(uid := (app_user_data st uid)\<lparr>ud_pending_images := Some v\<rparr>)\<rparr>"

definition put_user_data :: "bot_state \<Rightarrow> int \<Rightarrow> user_data \<Rightarrow> bot_state" where
  "put_user_data st uid ud = st\<lparr>app_user_data := (app_user_data st)(uid := ud)\<rparr>"

definition pending :: "bot_state \<Rightarrow> int \<Rightarrow> bytes list" where
  "pending st uid = get_pending (app_user_data st uid)"

section \<open>The generative backend: \<open>ImageProcessor\<close> (processor.py)\<close>

text \<open>
  The OpenAI client, the Pillow conversion and the Telegram download are external.
  They are parameters of the model: each is a function of its request, and a call that
  raises returns the exception as a value. The messages of the \<^verbatim>\<open>ValueError\<close>s that the
  processor raises itself are the constructors of \<open>err_msg\<close>, named after their content.
\<close>

datatype err_msg =
    ImageCountOutOfRange
  | EmptyCommand
  | EmptyDescription
  | EmptyChatMessage
  | UnsupportedImage

datatype py_error =
    ValueError err_msg
  | NoImageReturned
  | ApiError string
  | DownloadError

type_synonym api_image = "string \<times> bytes \<times> string"

record edit_request =
  er_model :: string
  er_image :: "api_image list"
  er_prompt :: string
  er_quality :: string
  er_size :: string
  er_output_format :: string

record generate_request =
  gr_model :: string
  gr_prompt :: string
  gr_quality :: "string option"
  gr_size :: string
  gr_output_format :: "string option"

record chat_request =
  cr_model :: string
  cr_prompt :: string
  cr_image :: "(string \<times> bytes) option"

datatype api_call = Edit edit_request | Generate generate_request | Chat chat_request

text \<open>
  An image response carries the decoded bytes and the formatted usage string;
  \<open>EmptyResult\<close> is a response without image data.
\<close>

datatype image_response = ImageResult bytes "string option" | EmptyResult | ImageRaises py_error

datatype chat_response = ChatText string | ChatRaises py_error

record env =
  download :: "string \<Rightarrow> bytes option"
  to_api_format :: "bytes \<Rightarrow> nat \<Rightarrow> api_image option"
  images_edit :: "edit_request \<Rightarrow> image_response"
  images_generate :: "generate_request \<Rightarrow> image_response"
  chat_completions :: "chat_request \<Rightarrow> chat_response"

definition MODEL :: string where
  "MODEL = ''gpt-image-1.5''"

definition QUALITY :: string where
  "QUALITY = ''high''"

definition SIZE :: string where
  "SIZE = ''1536x1024''"

definition OUTPUT_FORMAT :: string where
  "OUTPUT_FORMAT = ''png''"

text \<open>The Russian text of the system prompt is abbreviated; it ends in two newlines.\<close>

definition SYSTEM_PROMPT :: string where
  "SYSTEM_PROMPT = ''[SYSTEM_PROMPT]'' @ [nl, nl]"

text \<open>\<^verbatim>\<open>model or self.MODEL\<close>.\<close>

definition model_or_default :: "string option \<Rightarrow> string" where
  "model_or_default m = (case m of None \<Rightarrow> MODEL | Some x \<Rightarrow> if x = [] then MODEL else x)"

text \<open>
  \<^verbatim>\<open>[self._to_api_format(item, i, []) for i, item in enumerate(image_files)]\<close>:
  the first conversion that fails raises \<^verbatim>\<open>ValueError\<close>.
\<close>

fun to_api_all :: "env \<Rightarrow> bytes list \<Rightarrow> nat \<Rightarrow> api_image list option" where
  "to_api_all e [] i = Some []"
| "to_api_all e (b # bs) i =
     (case to_api_format e b i of
        None \<Rightarrow> None
      | Some a \<Rightarrow> (case to_api_all e bs (Suc i) of None \<Rightarrow> None | Some r \<Rightarrow> Some (a # r)))"

text \<open>
  \<^verbatim>\<open>ImageProcessor.process\<close> (lines 49--139) on a list of \<^verbatim>\<open>bytes\<close>, with the
  default quality, size and output format. The result is the value returned or the
  exception raised, together with the backend calls made.
\<close>

definition process ::
  "env \<Rightarrow> bytes list \<Rightarrow> string \<Rightarrow> string option \<Rightarrow> (py_error + bytes \<times> string option) \<times> api_call list"
  where
  "process e images prompt model =
     (let model = model_or_default model
      in if \<not> (1 \<le> length images \<and> length images \<le> 10)
         then (Inl (ValueError ImageCountOutOfRange), [])
         else
           let (images, size) =
                 (if model = ''dall-e-2'' \<and> length images > 1
                  then (take 1 images, ''1024x1024'') else (images, SIZE))
           in if prompt = [] \<or> strip prompt = [] then (Inl (ValueError EmptyCommand), [])
              else
                (case to_api_all e images 0 of
                   None \<Rightarrow> (Inl (ValueError UnsupportedImage), [])
                 | Some api_images \<Rightarrow>
                     let req = \<lparr>er_model = model, er_image = api_images,
                                er_prompt = SYSTEM_PROMPT @ strip prompt,
                                er_quality = QUALITY, er_size = size,
                                er_output_format = OUTPUT_FORMAT\<rparr>
                     in (case images_edit e req of
                           ImageRaises x \<Rightarrow> (Inl x, [Edit req])
                         | EmptyResult \<Rightarrow> (Inl NoImageReturned, [Edit req])
                         | ImageResult b u \<Rightarrow> (Inr (b, u), [Edit req]))))"

text \<open>\<^verbatim>\<open>ImageProcessor.process_create\<close> (lines 327--392).\<close>

definition process_create ::
  "env \<Rightarrow> string \<Rightarrow> string option \<Rightarrow> (py_error + bytes \<times> string option) \<times> api_call list"
  where
  "process_create e prompt model =
     (let model = model_or_default model
      in if prompt = [] \<or> strip prompt = [] then (Inl (ValueError EmptyDescription), [])
         else
           let (size, quality) =
                 (if model = ''dall-e-2'' then (''1024x1024'', ''standard'') else (SIZE, QUALITY));
               req = (if take 6 model = ''dall-e''
                      then \<lparr>gr_model = model, gr_prompt = strip prompt, gr_quality = None,
                            gr_size = size, gr_output_format = None\<rparr>
                      else \<lparr>gr_model = model, gr_prompt = strip prompt, gr_quality = Some quality,
                            gr_size = size, gr_output_format = Some OUTPUT_FORMAT\<rparr>)
           in (case images_generate e req of
                 ImageRaises x \<Rightarrow> (Inl x, [Generate req])
               | EmptyResult \<Rightarrow> (Inl NoImageReturned, [Generate req])
               | ImageResult b u \<Rightarrow> (Inr (b, u), [Generate req])))"

text \<open>The content type read off the magic bytes (lines 241--247).\<close>

definition detect_mime :: "bytes \<Rightarrow> string" where
  "detect_mime d =
     (if take 3 d = [CHR 0xFF, CHR 0xD8, CHR 0xFF] then ''image/jpeg''
      else if take 8 d = [CHR 0x89, CHR ''P'', CHR ''N'', CHR ''G'', CHR 0x0D, CHR 0x0A, CHR 0x1A, CHR 0x0A]
      then ''image/png''
      else if take 4 d = ''RIFF'' \<and> take 4 (drop 8 d) = ''WEBP'' then ''image/webp''
      else ''image/png'')"

text \<open>\<^verbatim>\<open>process_text_with_image\<close> (lines 220--265) and \<^verbatim>\<open>process_text_only\<close> (267--290).\<close>

definition process_text_with_image ::
  "env \<Rightarrow> bytes \<Rightarrow> string \<Rightarrow> string \<Rightarrow> (py_error + string) \<times> api_call list"
  where
  "process_text_with_image e img prompt model =
     (let req = \<lparr>cr_model = model, cr_prompt = strip prompt,
                 cr_image = Some (detect_mime img, img)\<rparr>
      in (case chat_completions e req of
            ChatRaises x \<Rightarrow> (Inl x, [Chat req])
          | ChatText t \<Rightarrow> (Inr t, [Chat req])))"

definition process_text_only ::
  "env \<Rightarrow> string \<Rightarrow> string \<Rightarrow> (py_error + string) \<times> api_call list"
  where
  "process_text_only e prompt model =
     (if prompt = [] \<or> strip prompt = [] then (Inl (ValueError EmptyChatMessage), [])
      else
        let req = \<lparr>cr_model = model, cr_prompt = strip prompt, cr_image = None\<rparr>
        in (case chat_completions e req of
              ChatRaises x \<Rightarrow> (Inl x, [Chat req])
            | ChatText t \<Rightarrow> (Inr t, [Chat req])))"

section \<open>The Telegram handlers (bot.py)\<close>

text \<open>
  What a handler sends is recorded as a list of actions. The fixed Russian texts are
  constructors of \<open>reply_text\<close>, named after their content, with the arguments of the
  format string where there is one.
\<close>

datatype reply_text =
    OnlyImagesSupported
  | CreateCaptionHint string
  | CreateTextOnlyHint string
  | MaxImagesAlbum
  | MaxImagesSingle
  | ReceivedImages nat string
  | EnterDescription
  | DescriptionTruncated
  | DalleDescriptionTruncated
  | EnterMessage
  | PromptTruncated
  | SendImageFirst
  | Generating string
  | Working
  | WorkingImages string
  | EmptyAnswer
  | CommandReply string
  | ErrorStr py_error
  | ErrorPrefixed py_error
  | FormattedImageError py_error
  | Verbatim string

datatype action =
    Reply reply_text
  | StatusEdit reply_text
  | StatusDelete
  | ReplyPhoto bytes string "string option"

text \<open>
  The outcome of a handler: the new state, what was sent, the backend calls made, the
  flush tasks created, and the exception that left the handler, if any.
\<close>

record outcome =
  r_state :: bot_state
  r_actions :: "action list"
  r_calls :: "api_call list"
  r_scheduled :: "string list"
  r_raised :: "py_error option"

definition returned :: "bot_state \<Rightarrow> action list \<Rightarrow> api_call list \<Rightarrow> outcome" where
  "returned st acts calls =
     \<lparr>r_state = st, r_actions = acts, r_calls = calls, r_scheduled = [], r_raised = None\<rparr>"

definition raised :: "bot_state \<Rightarrow> py_error \<Rightarrow> outcome" where
  "raised st x =
     \<lparr>r_state = st, r_actions = [], r_calls = [], r_scheduled = [], r_raised = Some x\<rparr>"

subsection \<open>\<open>process_and_reply\<close> (lines 489--674)\<close>

text \<open>
  The two text-to-image branches (lines 506--545 and 548--587) differ only in the model
  passed to \<^verbatim>\<open>process_create\<close>. The temporary file is not modelled.
\<close>

definition create_and_reply :: "env \<Rightarrow> string \<Rightarrow> string \<Rightarrow> string \<Rightarrow> action list \<times> api_call list"
  where
  "create_and_reply e model api_model prompt =
     (let label = model_label model;
          status = Reply (Generating label)
      in (case process_create e prompt (Some api_model) of
            (Inl (ValueError m), calls) \<Rightarrow> ([status, StatusEdit (ErrorStr (ValueError m))], calls)
          | (Inl x, calls) \<Rightarrow> ([status, StatusEdit (FormattedImageError x)], calls)
          | (Inr (result_bytes, usage_str), calls) \<Rightarrow>
              ([status, ReplyPhoto result_bytes label usage_str, StatusDelete], calls)))"

text \<open>
  The text mode (lines 590--624). The chunks of the answer are sent one by one; a
  \<open>chunk_text\<close> that did not return would send nothing after deleting the status.
\<close>

definition chat_and_reply :: "env \<Rightarrow> string \<Rightarrow> bytes list \<Rightarrow> string \<Rightarrow> action list \<times> api_call list"
  where
  "chat_and_reply e model images prompt =
     (let status = Reply Working;
          res = (case images of
                   [] \<Rightarrow> process_text_only e prompt model
                 | _ # _ \<Rightarrow>
                     let images = (if length images > 1 then take 1 images else images)
                     in process_text_with_image e (hd images) prompt model)
      in (case res of
            (Inl (ValueError m), calls) \<Rightarrow> ([status, StatusEdit (ErrorStr (ValueError m))], calls)
          | (Inl x, calls) \<Rightarrow> ([status, StatusEdit (ErrorPrefixed x)], calls)
          | (Inr result_text, calls) \<Rightarrow>
              (case chunk_text result_text TELEGRAM_MAX_MESSAGE of
                 None \<Rightarrow> ([status, StatusDelete], calls)
               | Some [] \<Rightarrow> ([status, StatusDelete, Reply EmptyAnswer], calls)
               | Some parts \<Rightarrow> ([status, StatusDelete] @ map (\<lambda>p. Reply (Verbatim p)) parts, calls))))"

text \<open>The image editing mode (lines 627--674).\<close>

definition edit_and_reply :: "env \<Rightarrow> string \<Rightarrow> bytes list \<Rightarrow> string \<Rightarrow> action list \<times> api_call list"
  where
  "edit_and_reply e model images prompt =
     (let label = model_label model;
          status = Reply (WorkingImages label)
      in (case process e images prompt (Some model) of
            (Inl (ValueError m), calls) \<Rightarrow> ([status, StatusEdit (ErrorStr (ValueError m))], calls)
          | (Inl x, calls) \<Rightarrow> ([status, StatusEdit (FormattedImageError x)], calls)
          | (Inr (result_bytes, usage_str), calls) \<Rightarrow>
              ([status, ReplyPhoto result_bytes label usage_str, StatusDelete], calls)))"

text \<open>
  \<open>process_and_reply\<close> reads the model from \<^verbatim>\<open>context.user_data\<close> and never
  writes to it, so it takes the user's data and returns only what it sent and called.
\<close>

definition process_and_reply :: "env \<Rightarrow> user_data \<Rightarrow> bytes list \<Rightarrow> string \<Rightarrow> action list \<times> api_call list"
  where
  "process_and_reply e ud images prompt =
     (let model = get_model ud
      in if model = ''create'' then create_and_reply e model ''gpt-image-1.5'' prompt
         else if model = ''dalle_create'' then create_and_reply e model ''dall-e-2'' prompt
         else if model = ''gpt-5.2'' then chat_and_reply e model images prompt
         else edit_and_reply e model images prompt)"

text \<open>
  The pattern \<^verbatim>\<open>user_data["pending_images"] = []; await process_and_reply(...)\<close>
  that every dispatching path of the handlers ends with; \<open>warn\<close> is what the path sent
  before it.
\<close>

definition dispatch :: "env \<Rightarrow> bot_state \<Rightarrow> int \<Rightarrow> action list \<Rightarrow> bytes list \<Rightarrow> string \<Rightarrow> outcome"
  where
  "dispatch e st uid warn images prompt =
     (let st' = put_pending st uid [];
          (acts, calls) = process_and_reply e (app_user_data st' uid) images prompt
      in returned st' (warn @ acts) calls)"

subsection \<open>Mode commands (lines 124--215)\<close>

definition command :: "string \<Rightarrow> string \<Rightarrow> update \<Rightarrow> bot_state \<Rightarrow> outcome" where
  "command name m upd st =
     (let uid = upd_user_id upd
      in returned (put_user_data st uid (set_model (app_user_data st uid) m))
           [Reply (CommandReply name)] [])"

definition start :: "update \<Rightarrow> bot_state \<Rightarrow> outcome" where
  "start = command ''start'' ''gpt-5.2''"

definition cmd_image1 :: "update \<Rightarrow> bot_state \<Rightarrow> outcome" where
  "cmd_image1 = command ''image1'' ''gpt-image-1''"

definition cmd_image15 :: "update \<Rightarrow> bot_state \<Rightarrow> outcome" where
  "cmd_image15 = command ''image15'' ''gpt-image-1.5''"

definition cmd_dalle :: "update \<Rightarrow> bot_state \<Rightarrow> outcome" where
  "cmd_dalle = command ''dalle'' ''dall-e-2''"

definition cmd_create :: "update \<Rightarrow> bot_state \<Rightarrow> outcome" where
  "cmd_create = command ''create'' ''create''"

definition cmd_dalle_gen :: "update \<Rightarrow> bot_state \<Rightarrow> outcome" where
  "cmd_dalle_gen = command ''dalle_gen'' ''dalle_create''"

definition cmd_text :: "update \<Rightarrow> bot_state \<Rightarrow> outcome" where
  "cmd_text = command ''text'' ''gpt-5.2''"

definition mode_commands :: "(update \<Rightarrow> bot_state \<Rightarrow> outcome) list" where
  "mode_commands = [start, cmd_image1, cmd_image15, cmd_dalle, cmd_create, cmd_dalle_gen, cmd_text]"

subsection \<open>Album flush: \<open>process_media_group_after_delay\<close> (lines 232--302)\<close>

definition mode_name :: "string \<Rightarrow> string" where
  "mode_name model = (if model = ''dalle_create'' then ''DALL-E Gen'' else ''Create'')"

text \<open>The download loop (lines 272--275); a failing download raises.\<close>

fun download_all :: "env \<Rightarrow> string list \<Rightarrow> bytes list option" where
  "download_all e [] = Some []"
| "download_all e (fid # fids) =
     (case download e fid of
        None \<Rightarrow> None
      | Some b \<Rightarrow> (case download_all e fids of None \<Rightarrow> None | Some bs \<Rightarrow> Some (b # bs)))"

text \<open>
  \<^verbatim>\<open>media_groups.pop(group_id, None)\<close>: the lookup and the removal are one dictionary
  operation, with no suspension point between them.
\<close>

definition pop_group :: "string \<Rightarrow> bot_state \<Rightarrow> group option \<times> bot_state" where
  "pop_group group_id st =
     (media_groups st group_id, st\<lparr>media_groups := (media_groups st)(group_id := None)\<rparr>)"

text \<open>
  Lines 277--302: the downloaded album is merged with the images already pending, capped,
  and dispatched or stored. \<open>model\<close> is the model read before the downloads.
\<close>

definition assemble_album :: "env \<Rightarrow> group \<Rightarrow> string \<Rightarrow> bytes list \<Rightarrow> bot_state \<Rightarrow> outcome" where
  "assemble_album e data model downloaded st =
     (let caption = g_caption data;
          user_id = g_user_id data;
          existing = get_pending (app_user_data st user_id);
          images = (if model = ''gpt-5.2'' then take 1 downloaded else existing @ downloaded);
          (warn, images) =
            (if length images > 10 then ([Reply MaxImagesAlbum], last10 images)
             else ([], images))
      in if caption \<noteq> [] then dispatch e st user_id warn images caption
         else returned (put_pending st user_id images)
                (warn @ [Reply (ReceivedImages (length images) (model_label model))]) [])"

text \<open>Lines 241--275: what the flush does with the album it has taken out of the registry.\<close>

definition process_group :: "env \<Rightarrow> group \<Rightarrow> bot_state \<Rightarrow> outcome" where
  "process_group e data st =
     (let file_ids = g_file_ids data;
          caption = g_caption data;
          user_id = g_user_id data;
          model = get_model (app_user_data st user_id)
      in if model = ''create'' \<or> model = ''dalle_create'' then
           (if caption \<noteq> [] then dispatch e st user_id [] [] caption
            else returned (put_pending st user_id []) [Reply (CreateCaptionHint (mode_name model))] [])
         else
           (case download_all e file_ids of
              None \<Rightarrow> raised st DownloadError
            | Some downloaded \<Rightarrow> assemble_album e data model downloaded st))"

definition process_media_group_after_delay :: "env \<Rightarrow> string \<Rightarrow> bot_state \<Rightarrow> outcome" where
  "process_media_group_after_delay e group_id st =
     (case pop_group group_id st of
        (None, st') \<Rightarrow> returned st' [] []
      | (Some data, st') \<Rightarrow> process_group e data st')"

subsection \<open>\<open>handle_images\<close> (lines 304--408)\<close>

text \<open>Lines 386--408: the cap on the collected images, then dispatch or store.\<close>

definition finish_images :: "env \<Rightarrow> bot_state \<Rightarrow> int \<Rightarrow> string \<Rightarrow> bytes list \<Rightarrow> outcome" where
  "finish_images e st uid caption images =
     (let (warn, images) =
            (if length images > 10 then ([Reply MaxImagesSingle], last10 images) else ([], images))
      in if caption \<noteq> [] then dispatch e st uid warn images caption
         else returned (put_pending st uid images)
                (warn @ [Reply (ReceivedImages (length images)
                                  (model_label (get_model (app_user_data st uid))))]) [])"

definition handle_images :: "env \<Rightarrow> update \<Rightarrow> bot_state \<Rightarrow> outcome" where
  "handle_images e upd st =
     (let message = upd_message upd;
          uid = upd_user_id upd;
          ud = app_user_data st uid;
          caption = strip (or_empty (msg_caption message))
      in if (get_model ud = ''create'' \<or> get_model ud = ''dalle_create'')
            \<and> \<not> truthy (msg_media_group_id message) then
           (if caption \<noteq> [] then dispatch e st uid [] [] caption
            else returned st [Reply (CreateTextOnlyHint (mode_name (get_model ud)))] [])
         else if truthy (msg_media_group_id message) then
           (let rejected =
                  returned st (if msg_document message \<noteq> None then [Reply OnlyImagesSupported] else []) []
            in case album_file_id message of
              None \<Rightarrow> rejected
            | Some file_id \<Rightarrow>
                if file_id = [] then rejected
                else
                let group_id = or_empty (msg_media_group_id message)
                in (case media_groups st group_id of
                      Some g \<Rightarrow>
                        returned
                          (st\<lparr>media_groups :=
                                (media_groups st)(group_id \<mapsto> g\<lparr>g_file_ids := g_file_ids g @ [file_id]\<rparr>)\<rparr>)
                          [] []
                    | None \<Rightarrow>
                        (returned
                          (st\<lparr>media_groups :=
                                (media_groups st)(group_id \<mapsto>
                                   \<lparr>g_file_ids = [file_id], g_caption = caption,
                                    g_user_id = uid, g_first_update = upd\<rparr>)\<rparr>)
                          [] [])\<lparr>r_scheduled := [group_id]\<rparr>))
         else
           let images = (if get_model ud = ''gpt-5.2'' then [] else get_pending ud)
           in (case msg_photo message of
                 p # ps \<Rightarrow>
                   (case download e (ps_file_id (max_by_size p ps)) of
                      None \<Rightarrow> raised st DownloadError
                    | Some b \<Rightarrow> finish_images e st uid caption (images @ [b]))
               | [] \<Rightarrow>
                   (case msg_document message of
                      None \<Rightarrow> finish_images e st uid caption images
                    | Some doc \<Rightarrow>
                        if take 6 (or_empty (doc_mime_type doc)) \<noteq> ''image/''
                        then returned st [Reply OnlyImagesSupported] []
                        else
                          (case download e (doc_file_id doc) of
                             None \<Rightarrow> raised st DownloadError
                           | Some b \<Rightarrow> finish_images e st uid caption (images @ [b])))))"

subsection \<open>\<open>handle_text\<close> (lines 410--472)\<close>

text \<open>
  The marker appended to a truncated prompt; its Cyrillic word is transliterated.
\<close>

definition TRUNC_MARKER :: string where
  "TRUNC_MARKER = [nl, nl] @ ''[... obrezano]''"

definition handle_text :: "env \<Rightarrow> update \<Rightarrow> bot_state \<Rightarrow> outcome" where
  "handle_text e upd st =
     (let message = upd_message upd;
          uid = upd_user_id upd;
          ud = app_user_data st uid;
          text = strip (or_empty (msg_text message));
          images = get_pending ud
      in if get_model ud = ''create'' then
           (if text = [] then returned st [Reply EnterDescription] []
            else if length text > 4000
            then dispatch e st uid [Reply DescriptionTruncated] [] (take 4000 text @ TRUNC_MARKER)
            else dispatch e st uid [] [] text)
         else if get_model ud = ''dalle_create'' then
           (if text = [] then returned st [Reply EnterDescription] []
            else if length text > 1000
            then dispatch e st uid [Reply DalleDescriptionTruncated] [] (take 1000 text @ TRUNC_MARKER)
            else dispatch e st uid [] [] text)
         else if get_model ud = ''gpt-5.2'' then
           (if text = [] then returned st [Reply EnterMessage] []
            else if length text > 4000
            then dispatch e st uid [Reply PromptTruncated] images (take 4000 text @ TRUNC_MARKER)
            else dispatch e st uid [] images text)
         else if images = [] then returned st [Reply SendImageFirst] []
         else if length text > 4000
         then dispatch e st uid [Reply PromptTruncated] images (take 4000 text @ TRUNC_MARKER)
         else dispatch e st uid [] images text)"

subsection \<open>Sequences of events\<close>

text \<open>
  A handler is one step of the model: the points inside a handler where the event loop
  could run another one (a download, a backend call, a reply) are not modelled as such.
  A sequence of attachment events, and a sequence of flushes, apply each handler to the
  state the previous one left.
\<close>

fun receive_images :: "env \<Rightarrow> update list \<Rightarrow> bot_state \<Rightarrow> bot_state" where
  "receive_images e [] st = st"
| "receive_images e (u # us) st = receive_images e us (r_state (handle_images e u st))"

fun run_flushes :: "env \<Rightarrow> string list \<Rightarrow> bot_state \<Rightarrow> bot_state" where
  "run_flushes e [] st = st"
| "run_flushes e (g # gs) st = run_flushes e gs (r_state (process_media_group_after_delay e g st))"

text \<open>
  The file id that an attachment event adds to the album \<open>group_id\<close>, if it adds one:
  the event carries that group id and a non-empty file id (lines 323--335).
\<close>

definition album_part :: "string \<Rightarrow> update \<Rightarrow> string option" where
  "album_part group_id u =
     (let m = upd_message u
      in if truthy (msg_media_group_id m) \<and> or_empty (msg_media_group_id m) = group_id
         then (case album_file_id m of
                 None \<Rightarrow> None
               | Some file_id \<Rightarrow> if file_id = [] then None else Some file_id)
         else None)"

section \<open>The specification's wording of the cut\<close>

text \<open>
  The chunk as the specification words it, to be compared with \<open>cut_chunk\<close>: the window
  of \<open>max_len\<close> characters, cut at the last newline within the first half of the window
  when there is one.
\<close>

definition spec_cut_chunk :: "string \<Rightarrow> int \<Rightarrow> string" where
  "spec_cut_chunk text max_len =
     (let window = py_prefix text max_len;
          last_nl = rfind (py_prefix window (max_len div 2)) nl
      in if 0 \<le> last_nl then py_prefix text (last_nl + 1) else window)"

section \<open>Concrete inputs\<close>

text \<open>
  Inputs for the concrete instances below: an environment whose downloads return the
  file id as content, whose image conversion succeeds and whose backend raises on every
  call; a photo, an image document and a text update of user 1; a state in which every
  user has the given
  model and pending images; a state with an open album; a state with ten pending images
  and an open album of two; and a state with one pending image and an open album that
  has a caption.
\<close>

definition env_failing :: env where
  "env_failing =
     \<lparr>download = (\<lambda>fid. Some fid),
      to_api_format = (\<lambda>b i. Some (''image.png'', b, ''image/png'')),
      images_edit = (\<lambda>r. ImageRaises (ApiError ''backend failure'')),
      images_generate = (\<lambda>r. ImageRaises (ApiError ''backend failure'')),
      chat_completions = (\<lambda>r. ChatRaises (ApiError ''backend failure''))\<rparr>"

definition photo_update :: "string \<Rightarrow> string option \<Rightarrow> string option \<Rightarrow> update" where
  "photo_update fid cap grp =
     \<lparr>upd_user_id = 1,
      upd_message = \<lparr>msg_text = None, msg_caption = cap, msg_media_group_id = grp,
                     msg_photo = [\<lparr>ps_file_id = fid, ps_file_size = 100\<rparr>],
                     msg_document = None\<rparr>\<rparr>"

definition text_update :: "string \<Rightarrow> update" where
  "text_update t =
     \<lparr>upd_user_id = 1,
      upd_message = \<lparr>msg_text = Some t, msg_caption = None, msg_media_group_id = None,
                     msg_photo = [], msg_document = None\<rparr>\<rparr>"

definition document_update :: "string \<Rightarrow> string \<Rightarrow> update" where
  "document_update fid mime =
     \<lparr>upd_user_id = 1,
      upd_message = \<lparr>msg_text = None, msg_caption = None, msg_media_group_id = None,
                     msg_photo = [],
                     msg_document = Some \<lparr>doc_file_id = fid, doc_mime_type = Some mime\<rparr>\<rparr>\<rparr>"

definition state_with :: "string \<Rightarrow> bytes list \<Rightarrow> bot_state" where
  "state_with m imgs =
     \<lparr>app_user_data = (\<lambda>u. \<lparr>ud_model = Some m, ud_pending_images = Some imgs\<rparr>),
      media_groups = Map.empty\<rparr>"

definition open_group :: "string \<Rightarrow> string list \<Rightarrow> string \<Rightarrow> bot_state \<Rightarrow> bot_state" where
  "open_group gid fids cap st =
     st\<lparr>media_groups := (media_groups st)(gid \<mapsto>
          \<lparr>g_file_ids = fids, g_caption = cap, g_user_id = 1,
           g_first_update = photo_update (hd fids) None (Some gid)\<rparr>)\<rparr>"

definition ten_images :: "bytes list" where
  "ten_images = [''p0'', ''p1'', ''p2'', ''p3'', ''p4'', ''p5'', ''p6'', ''p7'', ''p8'', ''p9'']"

definition full_state :: bot_state where
  "full_state = open_group ''g'' [''a'', ''b''] [] (state_with ''gpt-image-1'' ten_images)"

definition caption_state :: bot_state where
  "caption_state = open_group ''g'' [''a''] ''blue'' (state_with ''gpt-image-1'' [''img''])"

section \<open>A property of outcomes\<close>

text \<open>
  An outcome that made a backend call has left the pending images of the user empty.
\<close>

definition clears :: "int \<Rightarrow> outcome \<Rightarrow> bool" where
  "clears uid r = (r_calls r \<noteq> [] \<longrightarrow> pending (r_state r) uid = [])"

section \<open>Properties of \<open>chunk_text\<close>\<close>

subsection \<open>\<open>rfind\<close> and the cut\<close>

lemma rfind_lt: "rfind xs c < int (length xs)"
  by (induction xs) (auto simp: Let_def)

lemma rfind_ge: "- 1 \<le> rfind xs c"
  by (induction xs) (auto simp: Let_def)

lemma rfind_nonneg: "0 \<le> rfind xs c \<longleftrightarrow> c \<in> set xs"
  by (induction xs) (auto simp: Let_def)

lemma rfind_none: "rfind xs c = - 1 \<longleftrightarrow> c \<notin> set xs"
  using rfind_ge [of xs c] rfind_nonneg [of xs c] by auto

lemma rfind_last:
  "0 \<le> rfind xs c \<Longrightarrow>
     xs ! nat (rfind xs c) = c \<and> (\<forall>j. nat (rfind xs c) < j \<and> j < length xs \<longrightarrow> xs ! j \<noteq> c)"
proof (induction xs)
  case Nil
  then show ?case by simp
next
  case (Cons x xs)
  show ?case
  proof (cases "0 \<le> rfind xs c")
    case True
    then have r: "rfind (x # xs) c = rfind xs c + 1" by (simp add: Let_def)
    have n: "nat (rfind xs c + 1) = Suc (nat (rfind xs c))" using True by simp
    from Cons.IH [OF True] show ?thesis
      unfolding r n by (auto simp: less_Suc_eq_0_disj)
  next
    case False
    then have "rfind xs c = - 1" using rfind_ge [of xs c] by simp
    then have notin: "c \<notin> set xs" by (simp add: rfind_none)
    from Cons.prems False have "x = c" "rfind (x # xs) c = 0"
      by (auto simp: Let_def split: if_splits)
    then show ?thesis using notin by (auto simp: less_Suc_eq_0_disj nth_Cons')
  qed
qed

lemma cut_chunk_unfold:
  assumes "0 < max_len"
  shows "cut_chunk s max_len =
     (let window = take (nat max_len) s; last_nl = rfind window nl
      in if max_len div 2 < last_nl then take (nat last_nl + 1) s else window)"
proof -
  have "0 \<le> rfind (take (nat max_len) s) nl + 1" using rfind_ge [of "take (nat max_len) s" nl] by simp
  moreover have "0 \<le> rfind (take (nat max_len) s) nl \<Longrightarrow> nat (rfind (take (nat max_len) s) nl + 1) = nat (rfind (take (nat max_len) s) nl) + 1"
    by simp
  ultimately show ?thesis
  using assms by (auto simp: cut_chunk_def Let_def py_prefix_def)
qed

lemma cut_chunk_pos:
  assumes "0 < max_len" "s \<noteq> []"
  shows "cut_chunk s max_len \<noteq> [] \<and> int (length (cut_chunk s max_len)) \<le> max_len
         \<and> (\<exists>k. cut_chunk s max_len = take k s)"
proof -
  let ?w = "take (nat max_len) s"
  have lt: "rfind ?w nl < max_len"
    using rfind_lt [of ?w nl] assms by simp
  show ?thesis
  proof (cases "rfind ?w nl > max_len div 2")
    case True
    then have "cut_chunk s max_len = take (nat (rfind ?w nl) + 1) s"
      using assms by (simp add: cut_chunk_unfold Let_def)
    then show ?thesis using assms lt True by auto
  next
    case False
    then have "cut_chunk s max_len = ?w"
      using assms by (simp add: cut_chunk_unfold Let_def)
    then show ?thesis using assms by auto
  qed
qed

lemma chunk_loop_total:
  assumes "0 < max_len"
  shows "\<exists>cs. chunk_loop s max_len acc = Some (acc @ cs) \<and> concat cs = s
            \<and> (\<forall>c \<in> set cs. c \<noteq> [] \<and> int (length c) \<le> max_len)
            \<and> (\<forall>i < length cs. cs ! i = cut_chunk (concat (drop i cs)) max_len)"
proof (induction "length s" arbitrary: s acc rule: less_induct)
  case less
  show ?case
  proof (cases "s = []")
    case True
    then show ?thesis by (subst chunk_loop.simps) simp
  next
    case False
    let ?c = "cut_chunk s max_len"
    let ?r = "drop (length ?c) s"
    from cut_chunk_pos [OF assms False]
    obtain k where ne: "?c \<noteq> []" and le: "int (length ?c) \<le> max_len"
      and k: "?c = take k s" by blast
    have split: "?c @ ?r = s"
      by (subst (1) k) (simp add: k min_def)
    have "length ?r < length s" using ne False k by auto
    from less [OF this, of "acc @ [?c]"]
    obtain cs where cs: "chunk_loop ?r max_len (acc @ [?c]) = Some ((acc @ [?c]) @ cs)"
      "concat cs = ?r" "\<forall>c \<in> set cs. c \<noteq> [] \<and> int (length c) \<le> max_len"
      "\<forall>i < length cs. cs ! i = cut_chunk (concat (drop i cs)) max_len" by blast
    have "chunk_loop s max_len acc = Some (acc @ (?c # cs))"
      using False cs(1) by (subst chunk_loop.simps) (simp add: Let_def)
    moreover have cc: "concat (?c # cs) = s" using cs(2) split by simp
    moreover have "\<forall>c \<in> set (?c # cs). c \<noteq> [] \<and> int (length c) \<le> max_len"
      using cs(3) ne le by simp
    moreover have "\<forall>i < length (?c # cs). (?c # cs) ! i = cut_chunk (concat (drop i (?c # cs))) max_len"
    proof (intro allI impI)
      fix i assume "i < length (?c # cs)"
      then show "(?c # cs) ! i = cut_chunk (concat (drop i (?c # cs))) max_len"
        using cs(4) cc by (cases i) auto
    qed
    ultimately show ?thesis by blast
  qed
qed

lemma chunk_text_short:
  "int (length s) \<le> max_len \<Longrightarrow> chunk_text s max_len = Some (if s \<noteq> [] then [s] else [])"
  by (simp add: chunk_text_def)

text \<open>With \<open>max_len = 0\<close> the loop never returns: the chunk is empty and the text stays.\<close>

lemma chunk_loop_stuck:
  assumes "chunk_loop ''a'' 0 acc = Some y"
  shows False
proof -
  have "\<not> (''a'' = ''a'' \<and> (0::int) = 0)"
  proof (rule chunk_loop.raw_induct [where P = "\<lambda>s m acc y. \<not> (s = ''a'' \<and> m = 0)", OF _ assms])
    fix f :: "string \<Rightarrow> int \<Rightarrow> string list \<Rightarrow> string list option"
    fix s m acc y
    assume IH: "\<And>s m acc y. f s m acc = Some y \<Longrightarrow> \<not> (s = ''a'' \<and> m = 0)"
      and eq: "(if s = [] then Some acc
                else let chunk = cut_chunk s m in f (drop (length chunk) s) m (acc @ [chunk])) = Some y"
    show "\<not> (s = ''a'' \<and> m = 0)"
    proof
      assume a: "s = ''a'' \<and> m = 0"
      then have "f ''a'' 0 (acc @ [Nil]) = Some y"
        using eq by (simp add: cut_chunk_def py_prefix_def Let_def)
      from IH [OF this] show False by simp
    qed
  qed
  then show False by simp
qed

lemma chunk_text_diverges: "chunk_text ''a'' 0 = None"
proof (cases "chunk_text ''a'' 0")
  case (Some y)
  then have "chunk_loop ''a'' 0 [] = Some y" by (simp add: chunk_text_def)
  from chunk_loop_stuck [OF this] show ?thesis by simp
qed simp


text \<open>
  C4. For every text and every positive \<open>max_len\<close>: \<open>chunk_text\<close> returns the empty
  sequence on the empty text and \<open>[text]\<close> when \<open>0 < len(text) \<le> max_len\<close>; it returns
  for every text, and concatenating the chunks it returns gives back the text; and
  \<open>chunk_text\<close> applied to any chunk it returned gives that chunk alone.
\<close>

theorem chunk_text_roundtrip_idempotent:
  "0 < max_len \<Longrightarrow>
     chunk_text [] max_len = Some [] \<and>
     (text \<noteq> [] \<and> int (length text) \<le> max_len \<longrightarrow> chunk_text text max_len = Some [text]) \<and>
     (\<exists>chunks. chunk_text text max_len = Some chunks \<and> concat chunks = text \<and>
        (\<forall>c \<in> set chunks. chunk_text c max_len = Some [c]))"
proof (intro conjI impI)
  assume pos: "0 < max_len"
  show "chunk_text [] max_len = Some []" using pos by (simp add: chunk_text_def)
  show "chunk_text text max_len = Some [text]" if "text \<noteq> [] \<and> int (length text) \<le> max_len"
    using that by (simp add: chunk_text_def)
  show "\<exists>chunks. chunk_text text max_len = Some chunks \<and> concat chunks = text \<and>
        (\<forall>c \<in> set chunks. chunk_text c max_len = Some [c])"
  proof (cases "int (length text) \<le> max_len")
    case True
    then show ?thesis by (auto simp: chunk_text_def)
  next
    case False
    from chunk_loop_total [OF pos, of "text" "[]"]
    obtain cs where cs: "chunk_loop text max_len [] = Some cs" "concat cs = text"
      "\<forall>c \<in> set cs. c \<noteq> [] \<and> int (length c) \<le> max_len" by auto
    have "chunk_text text max_len = Some cs" using False cs(1) by (simp add: chunk_text_def)
    moreover have "\<forall>c \<in> set cs. chunk_text c max_len = Some [c]"
      using cs(3) by (simp add: chunk_text_def)
    ultimately show ?thesis using cs(2) by blast
  qed
qed

theorem chunk_text_roundtrip_idempotent_witness:
  "(0::int) < 4 \<and>
     chunk_text [] 4 = Some [] \<and>
     chunk_text ''abc'' 4 = Some [''abc''] \<and>
     chunk_text (''abc'' @ [nl] @ ''defgh'') 4 = Some [''abc'' @ [nl], ''defg'', ''h''] \<and>
     (\<exists>chunks. chunk_text (''abc'' @ [nl] @ ''defgh'') 4 = Some chunks \<and>
        concat chunks = ''abc'' @ [nl] @ ''defgh'' \<and>
        (\<forall>c \<in> set chunks. chunk_text c 4 = Some [c]))"
proof -
  have pos: "(0::int) < 4" by simp
  have a: "chunk_text ''abc'' 4 = Some [''abc'']"
    using chunk_text_roundtrip_idempotent [OF pos, of "''abc''"] by simp
  have b: "chunk_text (''abc'' @ [nl] @ ''defgh'') 4 = Some [''abc'' @ [nl], ''defg'', ''h'']"
    by code_simp
  show ?thesis
    using pos a b chunk_text_roundtrip_idempotent [OF pos, of "''abc'' @ [nl] @ ''defgh''"]
    by blast
qed

text \<open>
  C5 as the specification states it fails: it places the newline that decides the cut in
  the first half of the window. In \<open>"a\nbcdefghij"\<close> with \<open>max_len = 8\<close> the window
  \<open>"a\nbcdefg"\<close> has its only newline at index 1, in the first half; the specification's
  cut is \<open>"a\n"\<close>, and the code emits the whole window.
\<close>

theorem chunk_text_first_half_counterexample:
  "chunk_text (''a'' @ [nl] @ ''bcdefghij'') 8 = Some [''a'' @ [nl] @ ''bcdefg'', ''hij''] \<and>
   spec_cut_chunk (''a'' @ [nl] @ ''bcdefghij'') 8 = ''a'' @ [nl] \<and>
   cut_chunk (''a'' @ [nl] @ ''bcdefghij'') 8 \<noteq> spec_cut_chunk (''a'' @ [nl] @ ''bcdefghij'') 8"
  by code_simp

text \<open>
  C5, amended. For every positive \<open>max_len\<close> and every text longer than \<open>max_len\<close>,
  \<open>chunk_text\<close> returns chunks that concatenate to the text, none of them empty, and
  each chunk is cut from the text remaining after the chunks before it: it is the window
  of the first \<open>max_len\<close> characters of that remainder, except that when the last newline
  of the window lies at an index greater than \<open>max_len // 2\<close> the chunk ends just after
  that newline.
\<close>

theorem chunk_text_cuts:
  "0 < max_len \<Longrightarrow> max_len < int (length text) \<Longrightarrow>
     \<exists>chunks. chunk_text text max_len = Some chunks \<and> concat chunks = text \<and> [] \<notin> set chunks \<and>
       (\<forall>i < length chunks.
          let rest = concat (drop i chunks);
              window = take (nat max_len) rest;
              last_nl = rfind window nl
          in chunks ! i = (if max_len div 2 < last_nl then take (nat last_nl + 1) rest else window))"
proof -
  assume pos: "0 < max_len" and long: "max_len < int (length text)"
  from chunk_loop_total [OF pos, of "text" "[]"]
  obtain cs where cs: "chunk_loop text max_len [] = Some cs" "concat cs = text"
    "\<forall>c \<in> set cs. c \<noteq> [] \<and> int (length c) \<le> max_len"
    "\<forall>i < length cs. cs ! i = cut_chunk (concat (drop i cs)) max_len" by auto
  have "chunk_text text max_len = Some cs" using long cs(1) by (simp add: chunk_text_def)
  moreover have "[] \<notin> set cs" using cs(3) by blast
  moreover have "\<forall>i < length cs.
          let rest = concat (drop i cs);
              window = take (nat max_len) rest;
              last_nl = rfind window nl
          in cs ! i = (if max_len div 2 < last_nl then take (nat last_nl + 1) rest else window)"
    using cs(4) by (simp add: cut_chunk_unfold [OF pos])
  ultimately show ?thesis using cs(2) by blast
qed

theorem chunk_text_cuts_witness:
  "(0::int) < 8 \<and> 8 < int (length (''abcdef'' @ [nl] @ ''ghij'')) \<and>
   chunk_text (''abcdef'' @ [nl] @ ''ghij'') 8 = Some [''abcdef'' @ [nl], ''ghij''] \<and>
   (\<exists>chunks. chunk_text (''abcdef'' @ [nl] @ ''ghij'') 8 = Some chunks \<and>
       concat chunks = ''abcdef'' @ [nl] @ ''ghij'' \<and> [] \<notin> set chunks \<and>
       (\<forall>i < length chunks.
          let rest = concat (drop i chunks);
              window = take (nat 8) rest;
              last_nl = rfind window nl
          in chunks ! i = (if 8 div 2 < last_nl then take (nat last_nl + 1) rest else window)))"
proof -
  have pos: "(0::int) < 8" by simp
  have long: "8 < int (length (''abcdef'' @ [nl] @ ''ghij''))" by simp
  have b: "chunk_text (''abcdef'' @ [nl] @ ''ghij'') 8 = Some [''abcdef'' @ [nl], ''ghij'']"
    by code_simp
  show ?thesis
    using pos long b chunk_text_cuts [OF pos long]
    by blast
qed


section \<open>Properties of the handlers\<close>

subsection \<open>Selectors of the outcomes\<close>

lemma pending_put_pending [simp]:
  "pending (put_pending st uid v) u = (if u = uid then v else pending st u)"
  by (simp add: pending_def put_pending_def get_pending_def)

lemma media_groups_put_pending [simp]:
  "media_groups (put_pending st uid v) = media_groups st"
  by (simp add: put_pending_def)

lemma get_model_put_pending [simp]:
  "get_model (app_user_data (put_pending st uid v) u) = get_model (app_user_data st u)"
  by (simp add: put_pending_def get_model_def)

lemma pending_media_groups_update [simp]:
  "pending (st\<lparr>media_groups := m\<rparr>) u = pending st u"
  by (simp add: pending_def)

lemma returned_sel [simp]:
  "r_state (returned st acts calls) = st"
  "r_actions (returned st acts calls) = acts"
  "r_calls (returned st acts calls) = calls"
  "r_scheduled (returned st acts calls) = []"
  "r_raised (returned st acts calls) = None"
  by (simp_all add: returned_def)

lemma raised_sel [simp]:
  "r_state (raised st x) = st"
  "r_actions (raised st x) = []"
  "r_calls (raised st x) = []"
  "r_raised (raised st x) = Some x"
  by (simp_all add: raised_def)

lemma dispatch_sel [simp]:
  "r_state (dispatch e st uid warn images prompt) = put_pending st uid []"
  "r_actions (dispatch e st uid warn images prompt) =
     warn @ fst (process_and_reply e (app_user_data (put_pending st uid []) uid) images prompt)"
  "r_calls (dispatch e st uid warn images prompt) =
     snd (process_and_reply e (app_user_data (put_pending st uid []) uid) images prompt)"
  "r_raised (dispatch e st uid warn images prompt) = None"
  by (simp_all add: dispatch_def Let_def split: prod.splits)

lemma length_last10 [simp]: "length (last10 xs) \<le> 10"
  by (simp add: last10_def)

lemma last10_short: "length xs \<le> 10 \<Longrightarrow> last10 xs = xs"
  by (simp add: last10_def)

lemma handle_text_state:
  "r_state (handle_text e upd st) = st \<and> r_calls (handle_text e upd st) = []
   \<or> r_state (handle_text e upd st) = put_pending st (upd_user_id upd) []"
  by (simp add: handle_text_def Let_def)

lemma command_pending:
  "pending (r_state (command name m upd st)) u = pending st u"
  by (simp add: command_def Let_def put_user_data_def set_model_def pending_def get_pending_def)

lemma finish_images_state:
  "r_state (finish_images e st uid caption images) =
     put_pending st uid (if caption \<noteq> [] then [] else if length images > 10 then last10 images else images)"
  by (simp add: finish_images_def Let_def split: prod.splits)

lemma handle_images_pending:
  "length (pending (r_state (handle_images e upd st)) u) \<le> 10 \<or>
   pending (r_state (handle_images e upd st)) u = pending st u"
  by (simp add: handle_images_def Let_def finish_images_state split: list.splits option.splits)

lemma assemble_album_state:
  "r_state (assemble_album e data model downloaded st) =
     put_pending st (g_user_id data)
       (if g_caption data \<noteq> [] then []
        else let images = (if model = ''gpt-5.2'' then take 1 downloaded
                           else pending st (g_user_id data) @ downloaded)
             in if length images > 10 then last10 images else images)"
  by (simp add: assemble_album_def Let_def pending_def split: prod.splits)

lemma process_group_media [simp]:
  "media_groups (r_state (process_group e data st)) = media_groups st"
  by (simp add: process_group_def assemble_album_state Let_def split: option.splits)

lemma process_group_pending:
  "length (pending (r_state (process_group e data st)) u) \<le> 10 \<or>
   pending (r_state (process_group e data st)) u = pending st u"
  by (simp add: process_group_def assemble_album_state Let_def split: option.splits)

lemma flush_media:
  "media_groups (r_state (process_media_group_after_delay e gid st)) = (media_groups st)(gid := None)"
  by (simp add: process_media_group_after_delay_def pop_group_def split: option.splits)

lemma flush_absent:
  "media_groups st gid = None \<Longrightarrow> process_media_group_after_delay e gid st = returned st [] []"
  by (simp add: process_media_group_after_delay_def pop_group_def fun_upd_idem)

lemma flush_present:
  "media_groups st gid = Some g \<Longrightarrow>
   process_media_group_after_delay e gid st =
     process_group e g (st\<lparr>media_groups := (media_groups st)(gid := None)\<rparr>)"
  by (simp add: process_media_group_after_delay_def pop_group_def)

lemma run_flushes_media:
  "media_groups (run_flushes e gids st) = (\<lambda>x. if x \<in> set gids then None else media_groups st x)"
  by (induction gids arbitrary: st) (auto simp: flush_media)

lemma command_state:
  "r_state (command name m upd st) =
     st\<lparr>app_user_data :=
          (app_user_data st)(upd_user_id upd := set_model (app_user_data st (upd_user_id upd)) m)\<rparr>"
  by (simp add: command_def Let_def put_user_data_def)

lemma mode_commands_cases:
  "c \<in> set mode_commands \<Longrightarrow> \<exists>name m. c = command name m"
  unfolding mode_commands_def start_def cmd_image1_def cmd_image15_def cmd_dalle_def
    cmd_create_def cmd_dalle_gen_def cmd_text_def
  by auto

lemma flush_pending:
  "length (pending (r_state (process_media_group_after_delay e gid st)) u) \<le> 10 \<or>
   pending (r_state (process_media_group_after_delay e gid st)) u = pending st u"
proof (cases "media_groups st gid")
  case None
  then show ?thesis by (simp add: flush_absent)
next
  case (Some g)
  show ?thesis
    using process_group_pending [of e g "st\<lparr>media_groups := (media_groups st)(gid := None)\<rparr>" u]
    by (simp add: flush_present [OF Some])
qed

subsection \<open>The concrete inputs\<close>

lemma fixture_simps [simp]:
  "pending (state_with m imgs) u = imgs"
  "get_model (app_user_data (state_with m imgs) u) = m"
  "media_groups (state_with m imgs) = Map.empty"
  "upd_user_id (text_update t) = 1"
  "upd_user_id (photo_update fid cap grp) = 1"
  by (simp_all add: state_with_def pending_def get_pending_def get_model_def text_update_def photo_update_def)

lemma open_group_simps [simp]:
  "media_groups (open_group gid fids cap st) = (media_groups st)(gid \<mapsto>
          \<lparr>g_file_ids = fids, g_caption = cap, g_user_id = 1,
           g_first_update = photo_update (hd fids) None (Some gid)\<rparr>)"
  "pending (open_group gid fids cap st) u = pending st u"
  "app_user_data (open_group gid fids cap st) = app_user_data st"
  by (simp_all add: open_group_def pending_def)

lemma strip_blue [simp]: "strip ''blue'' = ''blue''"
  by (simp add: strip_def py_isspace_def)

lemma env_failing_simps [simp]:
  "download env_failing fid = Some fid"
  "to_api_format env_failing b i = Some (''image.png'', b, ''image/png'')"
  "images_edit env_failing r = ImageRaises (ApiError ''backend failure'')"
  by (simp_all add: env_failing_def)

lemma photo_update_simps [simp]:
  "msg_media_group_id (upd_message (photo_update fid cap grp)) = grp"
  "msg_photo (upd_message (photo_update fid cap grp)) = [\<lparr>ps_file_id = fid, ps_file_size = 100\<rparr>]"
  "msg_caption (upd_message (photo_update fid cap grp)) = cap"
  "msg_document (upd_message (photo_update fid cap grp)) = None"
  by (simp_all add: photo_update_def)

lemma document_update_simps [simp]:
  "upd_user_id (document_update fid mime) = 1"
  "msg_media_group_id (upd_message (document_update fid mime)) = None"
  "msg_photo (upd_message (document_update fid mime)) = []"
  "msg_caption (upd_message (document_update fid mime)) = None"
  "msg_document (upd_message (document_update fid mime)) =
     Some \<lparr>doc_file_id = fid, doc_mime_type = Some mime\<rparr>"
  by (simp_all add: document_update_def)

lemma download_all_failing [simp]: "download_all env_failing fids = Some fids"
  by (induction fids) simp_all

lemma text_update_simps [simp]:
  "msg_text (upd_message (text_update t)) = Some t"
  by (simp add: text_update_def)

lemma to_api_all_failing [simp]:
  "to_api_all env_failing imgs i = Some (map (\<lambda>b. (''image.png'', b, ''image/png'')) imgs)"
  by (induction imgs arbitrary: i) simp_all

lemma failing_calls_nonempty:
  "get_model ud = ''gpt-image-1'' \<Longrightarrow> imgs \<noteq> [] \<Longrightarrow> length imgs \<le> 10 \<Longrightarrow>
   snd (process_and_reply env_failing ud imgs ''blue'') \<noteq> []"
  by (cases imgs) (simp_all add: process_and_reply_def edit_and_reply_def process_def model_or_default_def
      Let_def)

lemma album_part_photo [simp]:
  "album_part gid (photo_update fid cap (Some grp)) =
     (if grp \<noteq> [] \<and> grp = gid \<and> fid \<noteq> [] then Some fid else None)"
  by (auto simp: album_part_def album_file_id_def truthy_def or_empty_def Let_def)

subsection \<open>Instructions without images\<close>

lemma edit_mode_rejects:
  "get_model (app_user_data st (upd_user_id upd)) \<in> {''gpt-image-1'', ''gpt-image-1.5'', ''dall-e-2''} \<Longrightarrow>
   pending st (upd_user_id upd) = [] \<Longrightarrow>
   handle_text e upd st =
     \<lparr>r_state = st, r_actions = [Reply SendImageFirst], r_calls = [], r_scheduled = [], r_raised = None\<rparr>"
  by (auto simp: handle_text_def Let_def pending_def returned_def)

text \<open>
  C8. In every edit mode (models \<open>gpt-image-1\<close>, \<open>gpt-image-1.5\<close> and \<open>dall-e-2\<close>), a
  text message that arrives while no image is pending is answered with the
  "send an image first" text alone: no backend call is made, nothing is scheduled or
  raised, and the state is the one before.
\<close>

theorem edit_mode_text_without_images_rejected:
  "get_model (app_user_data st (upd_user_id upd)) \<in> {''gpt-image-1'', ''gpt-image-1.5'', ''dall-e-2''} \<Longrightarrow>
   pending st (upd_user_id upd) = [] \<Longrightarrow>
   handle_text e upd st =
     \<lparr>r_state = st, r_actions = [Reply SendImageFirst], r_calls = [], r_scheduled = [], r_raised = None\<rparr>"
  by (rule edit_mode_rejects)

theorem edit_mode_text_without_images_rejected_witness:
  "get_model (app_user_data (state_with ''dall-e-2'' []) (upd_user_id (text_update ''make it blue'')))
     \<in> {''gpt-image-1'', ''gpt-image-1.5'', ''dall-e-2''} \<and>
   pending (state_with ''dall-e-2'' []) (upd_user_id (text_update ''make it blue'')) = [] \<and>
   handle_text env_failing (text_update ''make it blue'') (state_with ''dall-e-2'' []) =
     \<lparr>r_state = state_with ''dall-e-2'' [], r_actions = [Reply SendImageFirst], r_calls = [],
      r_scheduled = [], r_raised = None\<rparr>"
proof -
  have m: "get_model (app_user_data (state_with ''dall-e-2'' []) (upd_user_id (text_update ''make it blue'')))
     \<in> {''gpt-image-1'', ''gpt-image-1.5'', ''dall-e-2''}" by simp
  have p: "pending (state_with ''dall-e-2'' []) (upd_user_id (text_update ''make it blue'')) = []" by simp
  show ?thesis
    using m p edit_mode_text_without_images_rejected [OF m p, of env_failing] by blast
qed

subsection \<open>Mode commands\<close>

text \<open>
  C2 as the specification states it fails: a mode command does not empty the pending
  images. With one image pending, \<open>/image1\<close> leaves that image pending.
\<close>

theorem mode_switch_clears_counterexample:
  "pending (r_state (cmd_image1 (text_update ''/image1'') (state_with ''gpt-5.2'' [''img'']))) 1 = [''img''] \<and>
   pending (r_state (cmd_image1 (text_update ''/image1'') (state_with ''gpt-5.2'' [''img'']))) 1 \<noteq> []"
  by (simp add: cmd_image1_def command_pending)

text \<open>
  C2, amended. Every mode command (\<open>/start\<close>, \<open>/image1\<close>, \<open>/image15\<close>, \<open>/dalle\<close>,
  \<open>/create\<close>, \<open>/dalle_gen\<close>, \<open>/text\<close>) only sets the model of the user who sent it:
  the pending images of every user and the album registry are what they were before.
\<close>

theorem mode_switch_keeps_pending:
  "c \<in> set mode_commands \<Longrightarrow>
     pending (r_state (c upd st)) u = pending st u \<and>
     media_groups (r_state (c upd st)) = media_groups st \<and>
     (\<exists>m. app_user_data (r_state (c upd st)) =
            (app_user_data st)(upd_user_id upd := set_model (app_user_data st (upd_user_id upd)) m))"
proof -
  assume "c \<in> set mode_commands"
  then obtain name m where c: "c = command name m"
    using mode_commands_cases by blast
  have "pending (r_state (c upd st)) u = pending st u"
    unfolding c by (rule command_pending)
  moreover have "media_groups (r_state (c upd st)) = media_groups st"
    unfolding c by (simp add: command_state)
  moreover have "app_user_data (r_state (c upd st)) =
            (app_user_data st)(upd_user_id upd := set_model (app_user_data st (upd_user_id upd)) m)"
    unfolding c by (simp add: command_state)
  ultimately show ?thesis by blast
qed

theorem mode_switch_keeps_pending_witness:
  "cmd_dalle \<in> set mode_commands \<and>
     pending (r_state (cmd_dalle (text_update ''/dalle'') (state_with ''gpt-5.2'' [''img'']))) 1 = [''img'']"
proof -
  have c: "cmd_dalle \<in> set mode_commands" by (simp add: mode_commands_def)
  show ?thesis
    using c mode_switch_keeps_pending [OF c, of "text_update ''/dalle''" "state_with ''gpt-5.2'' [''img'']" 1]
    by simp
qed

subsection \<open>Flushing an album\<close>

text \<open>
  C7. A flush leaves its group id out of the registry; a flush of a group id that is not
  in the registry changes nothing, sends nothing and calls nothing; a flush of a group
  that is in the registry processes it in a state from which it has already been removed;
  hence, in every sequence of flushes, a flush of a group id that was flushed earlier in
  the sequence does nothing, so a group is processed at most once.
\<close>

theorem flush_at_most_once:
  "media_groups (r_state (process_media_group_after_delay e gid st)) gid = None \<and>
   (media_groups st gid' = None \<longrightarrow>
      process_media_group_after_delay e gid' st =
        \<lparr>r_state = st, r_actions = [], r_calls = [], r_scheduled = [], r_raised = None\<rparr>) \<and>
   (\<forall>g. media_groups st gid = Some g \<longrightarrow>
      process_media_group_after_delay e gid st =
        process_group e g (st\<lparr>media_groups := (media_groups st)(gid := None)\<rparr>)) \<and>
   (gid \<in> set gids \<longrightarrow>
      process_media_group_after_delay e gid (run_flushes e gids st) =
        \<lparr>r_state = run_flushes e gids st, r_actions = [], r_calls = [], r_scheduled = [],
         r_raised = None\<rparr>)"
proof (intro conjI impI allI)
  show "media_groups (r_state (process_media_group_after_delay e gid st)) gid = None"
    by (simp add: flush_media)
  show "process_media_group_after_delay e gid' st =
        \<lparr>r_state = st, r_actions = [], r_calls = [], r_scheduled = [], r_raised = None\<rparr>"
    if "media_groups st gid' = None"
    using flush_absent [OF that] by (simp add: returned_def)
  show "process_media_group_after_delay e gid st =
        process_group e g (st\<lparr>media_groups := (media_groups st)(gid := None)\<rparr>)"
    if "media_groups st gid = Some g" for g
    using flush_present [OF that] .
  show "process_media_group_after_delay e gid (run_flushes e gids st) =
        \<lparr>r_state = run_flushes e gids st, r_actions = [], r_calls = [], r_scheduled = [],
         r_raised = None\<rparr>"
    if "gid \<in> set gids"
  proof -
    have "media_groups (run_flushes e gids st) gid = None"
      using that by (simp add: run_flushes_media)
    from flush_absent [OF this] show ?thesis by (simp add: returned_def)
  qed
qed

theorem flush_at_most_once_witness:
  "media_groups caption_state ''h'' = None \<and>
   ''g'' \<in> set [''g'', ''h'', ''g''] \<and>
   media_groups caption_state ''g'' \<noteq> None \<and>
   media_groups (r_state (process_media_group_after_delay env_failing ''g'' caption_state)) ''g'' = None \<and>
   r_actions (process_media_group_after_delay env_failing ''h'' caption_state) = [] \<and>
   r_calls (process_media_group_after_delay env_failing ''g'' caption_state) \<noteq> [] \<and>
   r_calls (process_media_group_after_delay env_failing ''g''
       (run_flushes env_failing [''g'', ''h'', ''g''] caption_state)) = []"
proof -
  let ?g = "\<lparr>g_file_ids = [''a''], g_caption = ''blue'', g_user_id = 1,
             g_first_update = photo_update ''a'' None (Some ''g'')\<rparr>"
  note T = flush_at_most_once [of env_failing "''g''" caption_state "''h''" "[''g'', ''h'', ''g'']"]
  have h: "media_groups caption_state ''h'' = None" by (simp add: caption_state_def)
  have g: "media_groups caption_state ''g'' = Some ?g" by (simp add: caption_state_def)
  have m: "''g'' \<in> set [''g'', ''h'', ''g'']" by simp
  have a: "media_groups (r_state (process_media_group_after_delay env_failing ''g'' caption_state)) ''g'' = None"
    using T by blast
  have "process_media_group_after_delay env_failing ''h'' caption_state =
        \<lparr>r_state = caption_state, r_actions = [], r_calls = [], r_scheduled = [], r_raised = None\<rparr>"
    using T h by blast
  then have b: "r_actions (process_media_group_after_delay env_failing ''h'' caption_state) = []"
    by simp
  have "process_media_group_after_delay env_failing ''g'' caption_state =
        process_group env_failing ?g (caption_state\<lparr>media_groups := (media_groups caption_state)(''g'' := None)\<rparr>)"
    using T g by blast
  then have c: "r_calls (process_media_group_after_delay env_failing ''g'' caption_state) \<noteq> []"
    by (simp add: process_group_def assemble_album_def Let_def pending_def
        put_pending_def failing_calls_nonempty get_model_def caption_state_def state_with_def
        get_pending_def open_group_def)
  have "process_media_group_after_delay env_failing ''g'' (run_flushes env_failing [''g'', ''h'', ''g''] caption_state) =
        \<lparr>r_state = run_flushes env_failing [''g'', ''h'', ''g''] caption_state, r_actions = [], r_calls = [],
         r_scheduled = [], r_raised = None\<rparr>"
    using T m by blast
  then have d: "r_calls (process_media_group_after_delay env_failing ''g''
       (run_flushes env_failing [''g'', ''h'', ''g''] caption_state)) = []"
    by simp
  show ?thesis using h m g a b c d by simp
qed

subsection \<open>Dispatch empties the pending images\<close>

lemma clears_simps [simp]:
  "clears uid (returned st acts [])"
  "clears uid (raised st x)"
  "clears uid (dispatch e st uid warn images prompt)"
  by (simp_all add: clears_def)

lemma clears_scheduled [simp]: "clears uid (r\<lparr>r_scheduled := s\<rparr>) = clears uid r"
  by (simp add: clears_def)

lemma finish_images_clears [simp]: "clears uid (finish_images e st uid caption images)"
  by (simp add: finish_images_def Let_def split: prod.splits)

lemma handle_images_clears: "clears (upd_user_id upd) (handle_images e upd st)"
  unfolding handle_images_def Let_def
  by (simp split: list.split option.split)

lemma assemble_album_clears [simp]: "clears (g_user_id g) (assemble_album e g model downloaded st)"
  by (simp add: assemble_album_def Let_def split: prod.splits)

lemma process_group_clears: "clears (g_user_id g) (process_group e g st)"
  unfolding process_group_def Let_def
  by (simp split: option.split)

lemma handle_images_calls:
  "r_calls (handle_images e upd st) \<noteq> [] \<Longrightarrow>
   pending (r_state (handle_images e upd st)) (upd_user_id upd) = []"
  using handle_images_clears [of upd e st] by (simp add: clears_def)

lemma process_group_calls:
  "r_calls (process_group e g st) \<noteq> [] \<Longrightarrow>
   pending (r_state (process_group e g st)) (g_user_id g) = []"
  using process_group_clears [of g e st] by (simp add: clears_def)

lemma handle_text_calls:
  "r_calls (handle_text e upd st) \<noteq> [] \<Longrightarrow>
   r_state (handle_text e upd st) = put_pending st (upd_user_id upd) []"
  using handle_text_state [of e upd st] by auto

text \<open>
  C10. Every dispatch sets the pending images of the user to empty before it calls
  \<open>process_and_reply\<close>, whatever the backend then answers, and nothing sets them back.
  So whenever a text message, an image message or an album flush has made a backend call,
  the pending images of the user are empty afterwards, also when the call failed; and in
  an edit mode the same text sent again is answered with "send an image first".
\<close>

theorem dispatch_clears_pending:
  "pending (r_state (dispatch e st uid warn images prompt)) uid = [] \<and>
   (r_calls (handle_text e upd st) \<noteq> [] \<longrightarrow>
      pending (r_state (handle_text e upd st)) (upd_user_id upd) = [] \<and>
      (get_model (app_user_data st (upd_user_id upd)) \<in> {''gpt-image-1'', ''gpt-image-1.5'', ''dall-e-2''} \<longrightarrow>
         handle_text e upd (r_state (handle_text e upd st)) =
           \<lparr>r_state = r_state (handle_text e upd st), r_actions = [Reply SendImageFirst],
            r_calls = [], r_scheduled = [], r_raised = None\<rparr>)) \<and>
   (r_calls (handle_images e upd' st) \<noteq> [] \<longrightarrow>
      pending (r_state (handle_images e upd' st)) (upd_user_id upd') = []) \<and>
   (\<forall>g. media_groups st gid = Some g \<and> r_calls (process_media_group_after_delay e gid st) \<noteq> [] \<longrightarrow>
      pending (r_state (process_media_group_after_delay e gid st)) (g_user_id g) = [])"
proof (intro conjI impI allI)
  show "pending (r_state (dispatch e st uid warn images prompt)) uid = []" by simp
next
  assume c: "r_calls (handle_text e upd st) \<noteq> []"
  from handle_text_calls [OF c]
  show "pending (r_state (handle_text e upd st)) (upd_user_id upd) = []" by simp
next
  assume c: "r_calls (handle_text e upd st) \<noteq> []"
    and m: "get_model (app_user_data st (upd_user_id upd)) \<in> {''gpt-image-1'', ''gpt-image-1.5'', ''dall-e-2''}"
  let ?st = "r_state (handle_text e upd st)"
  have s: "?st = put_pending st (upd_user_id upd) []" by (rule handle_text_calls [OF c])
  have "get_model (app_user_data ?st (upd_user_id upd)) \<in> {''gpt-image-1'', ''gpt-image-1.5'', ''dall-e-2''}"
    using m by (simp add: s)
  moreover have "pending ?st (upd_user_id upd) = []" by (simp add: s)
  ultimately show "handle_text e upd ?st =
           \<lparr>r_state = ?st, r_actions = [Reply SendImageFirst],
            r_calls = [], r_scheduled = [], r_raised = None\<rparr>"
    by (rule edit_mode_rejects)
next
  assume "r_calls (handle_images e upd' st) \<noteq> []"
  then show "pending (r_state (handle_images e upd' st)) (upd_user_id upd') = []"
    by (rule handle_images_calls)
next
  fix g
  assume a: "media_groups st gid = Some g \<and> r_calls (process_media_group_after_delay e gid st) \<noteq> []"
  then have eq: "process_media_group_after_delay e gid st =
     process_group e g (st\<lparr>media_groups := (media_groups st)(gid := None)\<rparr>)"
    by (simp add: flush_present)
  show "pending (r_state (process_media_group_after_delay e gid st)) (g_user_id g) = []"
    using a process_group_calls [of e g "st\<lparr>media_groups := (media_groups st)(gid := None)\<rparr>"]
    unfolding eq by blast
qed

theorem dispatch_clears_pending_witness:
  "r_calls (handle_text env_failing (text_update ''blue'') caption_state) \<noteq> [] \<and>
   get_model (app_user_data caption_state (upd_user_id (text_update ''blue'')))
     \<in> {''gpt-image-1'', ''gpt-image-1.5'', ''dall-e-2''} \<and>
   r_calls (handle_images env_failing (photo_update ''b'' (Some ''blue'') None) caption_state) \<noteq> [] \<and>
   r_calls (process_media_group_after_delay env_failing ''g'' caption_state) \<noteq> [] \<and>
   pending (r_state (handle_text env_failing (text_update ''blue'') caption_state)) 1 = [] \<and>
   r_actions (handle_text env_failing (text_update ''blue'')
     (r_state (handle_text env_failing (text_update ''blue'') caption_state))) = [Reply SendImageFirst] \<and>
   pending (r_state (handle_images env_failing (photo_update ''b'' (Some ''blue'') None) caption_state)) 1 = [] \<and>
   pending (r_state (process_media_group_after_delay env_failing ''g'' caption_state)) 1 = []"
proof -
  let ?t = "text_update ''blue''"
  let ?p = "photo_update ''b'' (Some ''blue'') None"
  let ?g = "\<lparr>g_file_ids = [''a''], g_caption = ''blue'', g_user_id = 1,
             g_first_update = photo_update ''a'' None (Some ''g'')\<rparr>"
  note T = dispatch_clears_pending [of env_failing caption_state 1 "[]" "[]" "[]" ?t ?p "''g''"]
  have p: "\<And>u. pending caption_state u = [''img'']"
    and m: "\<And>u. get_model (app_user_data caption_state u) = ''gpt-image-1''"
    and g: "media_groups caption_state ''g'' = Some ?g"
    by (simp_all add: caption_state_def)
  have c1: "r_calls (handle_text env_failing ?t caption_state) \<noteq> []"
    using p [of 1] m [of 1]
    by (simp add: handle_text_def Let_def or_empty_def pending_def failing_calls_nonempty)
  have c2: "r_calls (handle_images env_failing ?p caption_state) \<noteq> []"
    using p [of 1] m [of 1]
    by (simp add: handle_images_def finish_images_def Let_def or_empty_def truthy_def pending_def
        failing_calls_nonempty)
  have c3: "r_calls (process_media_group_after_delay env_failing ''g'' caption_state) \<noteq> []"
    using p [of 1] m [of 1]
    by (simp add: flush_present [OF g] process_group_def assemble_album_def Let_def pending_def
        put_pending_def failing_calls_nonempty get_model_def)
  have m': "get_model (app_user_data caption_state (upd_user_id ?t))
     \<in> {''gpt-image-1'', ''gpt-image-1.5'', ''dall-e-2''}"
    by (simp add: m)
  have a: "pending (r_state (handle_text env_failing ?t caption_state)) 1 = []"
    using T c1 by simp
  have "handle_text env_failing ?t (r_state (handle_text env_failing ?t caption_state)) =
           \<lparr>r_state = r_state (handle_text env_failing ?t caption_state), r_actions = [Reply SendImageFirst],
            r_calls = [], r_scheduled = [], r_raised = None\<rparr>"
    using T c1 m' by blast
  then have b: "r_actions (handle_text env_failing ?t
     (r_state (handle_text env_failing ?t caption_state))) = [Reply SendImageFirst]"
    by simp
  have c: "pending (r_state (handle_images env_failing ?p caption_state)) 1 = []"
    using T c2 by simp
  have d: "pending (r_state (process_media_group_after_delay env_failing ''g'' caption_state)) 1 = []"
    using T c3 g by auto
  show ?thesis using c1 m' c2 c3 a b c d by blast
qed

subsection \<open>The cap on the pending images\<close>

lemma download_all_map:
  "\<forall>f \<in> set fids. download e f \<noteq> None \<Longrightarrow>
   download_all e fids = Some (map (\<lambda>f. the (download e f)) fids)"
  by (induction fids) auto

lemma download_all_None_iff:
  "(download_all e fids = None) = (\<exists>f \<in> set fids. download e f = None)"
  by (induction fids) (auto split: option.splits)

lemma finish_images_outcome:
  "finish_images e st uid caption images =
     (let warn = (if 10 < length images then [Reply MaxImagesSingle] else []);
          kept = drop (length images - 10) images
      in if caption \<noteq> [] then dispatch e st uid warn kept caption
         else \<lparr>r_state = put_pending st uid kept,
               r_actions = warn @ [Reply (ReceivedImages (length kept)
                                            (model_label (get_model (app_user_data st uid))))],
               r_calls = [], r_scheduled = [], r_raised = None\<rparr>)"
  by (simp add: finish_images_def Let_def last10_def returned_def)

lemma assemble_album_outcome:
  "assemble_album e g model bs st =
     (let batch = (if model = ''gpt-5.2'' then take 1 bs else pending st (g_user_id g) @ bs);
          warn = (if 10 < length batch then [Reply MaxImagesAlbum] else []);
          kept = drop (length batch - 10) batch
      in if g_caption g \<noteq> [] then dispatch e st (g_user_id g) warn kept (g_caption g)
         else \<lparr>r_state = put_pending st (g_user_id g) kept,
               r_actions = warn @ [Reply (ReceivedImages (length kept) (model_label model))],
               r_calls = [], r_scheduled = [], r_raised = None\<rparr>)"
  by (simp add: assemble_album_def Let_def last10_def returned_def pending_def)

lemma flush_outcome:
  assumes g: "media_groups st gid = Some g"
  shows "process_media_group_after_delay e gid st =
     (let st2 = st\<lparr>media_groups := (media_groups st)(gid := None)\<rparr>;
          uid = g_user_id g;
          model = get_model (app_user_data st uid);
          album = map (\<lambda>f. the (download e f)) (g_file_ids g);
          batch = (if model = ''gpt-5.2'' then take 1 album else pending st uid @ album);
          warn = (if 10 < length batch then [Reply MaxImagesAlbum] else []);
          kept = drop (length batch - 10) batch
      in if model = ''create'' \<or> model = ''dalle_create'' then
           (if g_caption g \<noteq> [] then dispatch e st2 uid [] [] (g_caption g)
            else \<lparr>r_state = put_pending st2 uid [],
                  r_actions = [Reply (CreateCaptionHint (mode_name model))],
                  r_calls = [], r_scheduled = [], r_raised = None\<rparr>)
         else if \<exists>f \<in> set (g_file_ids g). download e f = None then
           \<lparr>r_state = st2, r_actions = [], r_calls = [], r_scheduled = [],
            r_raised = Some DownloadError\<rparr>
         else if g_caption g \<noteq> [] then dispatch e st2 uid warn kept (g_caption g)
         else \<lparr>r_state = put_pending st2 uid kept,
               r_actions = warn @ [Reply (ReceivedImages (length kept) (model_label model))],
               r_calls = [], r_scheduled = [], r_raised = None\<rparr>)"
proof -
  let ?st2 = "st\<lparr>media_groups := (media_groups st)(gid := None)\<rparr>"
  let ?m = "get_model (app_user_data st (g_user_id g))"
  have eq: "process_media_group_after_delay e gid st = process_group e g ?st2"
    by (rule flush_present [OF g])
  show ?thesis
  proof (cases "?m = ''create'' \<or> ?m = ''dalle_create''")
    case True
    then show ?thesis
      unfolding eq by (auto simp: process_group_def Let_def returned_def)
  next
    case nc: False
    show ?thesis
    proof (cases "\<exists>f \<in> set (g_file_ids g). download e f = None")
      case True
      then have "download_all e (g_file_ids g) = None" by (simp add: download_all_None_iff)
      with nc True show ?thesis
        unfolding eq by (simp add: process_group_def Let_def raised_def)
    next
      case False
      then have "\<forall>f \<in> set (g_file_ids g). download e f \<noteq> None" by simp
      from download_all_map [OF this]
      have dl: "download_all e (g_file_ids g) = Some (map (\<lambda>f. the (download e f)) (g_file_ids g))" .
      have "process_group e g ?st2 =
              assemble_album e g ?m (map (\<lambda>f. the (download e f)) (g_file_ids g)) ?st2"
        using nc dl by (simp add: process_group_def Let_def)
      then show ?thesis
        unfolding eq assemble_album_outcome Let_def
        using nc False by (simp only: if_False pending_media_groups_update)
    
    qed
  qed
qed

lemma assemble_album_store:
  "g_caption g = [] \<Longrightarrow> model \<noteq> ''gpt-5.2'' \<Longrightarrow>
   assemble_album e g model bs st =
     returned (put_pending st (g_user_id g) (last10 (pending st (g_user_id g) @ bs)))
       ((if 10 < length (pending st (g_user_id g) @ bs) then [Reply MaxImagesAlbum] else []) @
        [Reply (ReceivedImages (length (last10 (pending st (g_user_id g) @ bs))) (model_label model))]) []"
  by (simp add: assemble_album_def Let_def last10_short pending_def)

lemma single_photo_outcome:
  assumes "\<not> truthy (msg_media_group_id (upd_message upd))"
    and "get_model (app_user_data st (upd_user_id upd)) \<notin> {''create'', ''dalle_create''}"
    and "msg_photo (upd_message upd) = p # ps"
    and "download e (ps_file_id (max_by_size p ps)) = Some b"
  shows "handle_images e upd st =
     finish_images e st (upd_user_id upd) (strip (or_empty (msg_caption (upd_message upd))))
       ((if get_model (app_user_data st (upd_user_id upd)) = ''gpt-5.2'' then []
         else pending st (upd_user_id upd)) @ [b])"
  using assms by (simp add: handle_images_def Let_def pending_def)

lemma single_document_outcome:
  assumes "\<not> truthy (msg_media_group_id (upd_message upd))"
    and "get_model (app_user_data st (upd_user_id upd)) \<notin> {''create'', ''dalle_create''}"
    and "msg_photo (upd_message upd) = []"
    and "msg_document (upd_message upd) = Some d"
    and "take 6 (or_empty (doc_mime_type d)) = ''image/''"
    and "download e (doc_file_id d) = Some b"
  shows "handle_images e upd st =
     finish_images e st (upd_user_id upd) (strip (or_empty (msg_caption (upd_message upd))))
       ((if get_model (app_user_data st (upd_user_id upd)) = ''gpt-5.2'' then []
         else pending st (upd_user_id upd)) @ [b])"
  using assms by (simp add: handle_images_def Let_def pending_def)

lemma finish_images_bound:
  "length (pending (r_state (finish_images e st uid caption images)) uid) \<le> 10"
  by (simp add: finish_images_state)

text \<open>
  C1. If every user has at most 10 pending images, then so has every user after
  \<open>handle_images\<close> and after an album flush. A single image, sent as a photo or as an
  image document, outside the generation modes: the images collected are those pending
  before (none in text mode) followed by the new one; the last 10 of them are kept, and
  the warning about the maximum is sent exactly when there were more than 10; without a
  caption the kept images are the buffer afterwards, with a caption they are dispatched
  and the buffer is empty. An album flush outside the generation modes whose downloads
  succeed does the same with the images pending before followed by the downloaded album
  (in text mode, with the first downloaded image alone). In each case the buffer holds
  at most 10 images afterwards.
\<close>

theorem pending_at_most_ten:
  "((\<forall>u. length (pending st u) \<le> 10) \<longrightarrow>
      (\<forall>u. length (pending (r_state (handle_images e upd st)) u) \<le> 10) \<and>
      (\<forall>u. length (pending (r_state (process_media_group_after_delay e gid st)) u) \<le> 10)) \<and>
   (\<not> truthy (msg_media_group_id (upd_message upd)) \<and>
    get_model (app_user_data st (upd_user_id upd)) \<notin> {''create'', ''dalle_create''} \<and>
    msg_photo (upd_message upd) = p # ps \<and>
    download e (ps_file_id (max_by_size p ps)) = Some b \<longrightarrow>
      (let uid = upd_user_id upd;
           model = get_model (app_user_data st uid);
           caption = strip (or_empty (msg_caption (upd_message upd)));
           batch = (if model = ''gpt-5.2'' then [] else pending st uid) @ [b];
           warn = (if 10 < length batch then [Reply MaxImagesSingle] else []);
           kept = drop (length batch - 10) batch
       in handle_images e upd st =
            (if caption \<noteq> [] then dispatch e st uid warn kept caption
             else \<lparr>r_state = put_pending st uid kept,
                   r_actions = warn @ [Reply (ReceivedImages (length kept) (model_label model))],
                   r_calls = [], r_scheduled = [], r_raised = None\<rparr>) \<and>
          length (pending (r_state (handle_images e upd st)) uid) \<le> 10)) \<and>
   (\<not> truthy (msg_media_group_id (upd_message upd2)) \<and>
    get_model (app_user_data st (upd_user_id upd2)) \<notin> {''create'', ''dalle_create''} \<and>
    msg_photo (upd_message upd2) = [] \<and>
    msg_document (upd_message upd2) = Some d \<and>
    take 6 (or_empty (doc_mime_type d)) = ''image/'' \<and>
    download e (doc_file_id d) = Some b2 \<longrightarrow>
      (let uid = upd_user_id upd2;
           model = get_model (app_user_data st uid);
           caption = strip (or_empty (msg_caption (upd_message upd2)));
           batch = (if model = ''gpt-5.2'' then [] else pending st uid) @ [b2];
           warn = (if 10 < length batch then [Reply MaxImagesSingle] else []);
           kept = drop (length batch - 10) batch
       in handle_images e upd2 st =
            (if caption \<noteq> [] then dispatch e st uid warn kept caption
             else \<lparr>r_state = put_pending st uid kept,
                   r_actions = warn @ [Reply (ReceivedImages (length kept) (model_label model))],
                   r_calls = [], r_scheduled = [], r_raised = None\<rparr>) \<and>
          length (pending (r_state (handle_images e upd2 st)) uid) \<le> 10)) \<and>
   (media_groups st gid = Some g \<and>
    get_model (app_user_data st (g_user_id g)) \<notin> {''create'', ''dalle_create''} \<and>
    (\<forall>f \<in> set (g_file_ids g). download e f \<noteq> None) \<longrightarrow>
      (let st2 = st\<lparr>media_groups := (media_groups st)(gid := None)\<rparr>;
           uid = g_user_id g;
           model = get_model (app_user_data st uid);
           album = map (\<lambda>f. the (download e f)) (g_file_ids g);
           batch = (if model = ''gpt-5.2'' then take 1 album else pending st uid @ album);
           warn = (if 10 < length batch then [Reply MaxImagesAlbum] else []);
           kept = drop (length batch - 10) batch
       in process_media_group_after_delay e gid st =
            (if g_caption g \<noteq> [] then dispatch e st2 uid warn kept (g_caption g)
             else \<lparr>r_state = put_pending st2 uid kept,
                   r_actions = warn @ [Reply (ReceivedImages (length kept) (model_label model))],
                   r_calls = [], r_scheduled = [], r_raised = None\<rparr>) \<and>
          length (pending (r_state (process_media_group_after_delay e gid st)) uid) \<le> 10))"
proof (intro conjI impI)
  assume inv: "\<forall>u. length (pending st u) \<le> 10"
  show "\<forall>u. length (pending (r_state (handle_images e upd st)) u) \<le> 10"
    using inv handle_images_pending [of e upd st] by metis
  show "\<forall>u. length (pending (r_state (process_media_group_after_delay e gid st)) u) \<le> 10"
    using inv flush_pending [of e gid st] by metis
next
  assume a: "\<not> truthy (msg_media_group_id (upd_message upd)) \<and>
    get_model (app_user_data st (upd_user_id upd)) \<notin> {''create'', ''dalle_create''} \<and>
    msg_photo (upd_message upd) = p # ps \<and>
    download e (ps_file_id (max_by_size p ps)) = Some b"
  then have eq: "handle_images e upd st =
     finish_images e st (upd_user_id upd) (strip (or_empty (msg_caption (upd_message upd))))
       ((if get_model (app_user_data st (upd_user_id upd)) = ''gpt-5.2'' then []
         else pending st (upd_user_id upd)) @ [b])"
    by (intro single_photo_outcome) blast+
  show "let uid = upd_user_id upd;
           model = get_model (app_user_data st uid);
           caption = strip (or_empty (msg_caption (upd_message upd)));
           batch = (if model = ''gpt-5.2'' then [] else pending st uid) @ [b];
           warn = (if 10 < length batch then [Reply MaxImagesSingle] else []);
           kept = drop (length batch - 10) batch
       in handle_images e upd st =
            (if caption \<noteq> [] then dispatch e st uid warn kept caption
             else \<lparr>r_state = put_pending st uid kept,
                   r_actions = warn @ [Reply (ReceivedImages (length kept) (model_label model))],
                   r_calls = [], r_scheduled = [], r_raised = None\<rparr>) \<and>
          length (pending (r_state (handle_images e upd st)) uid) \<le> 10"
    unfolding Let_def
  proof (rule conjI)
    show "length (pending (r_state (handle_images e upd st)) (upd_user_id upd)) \<le> 10"
      unfolding eq by (rule finish_images_bound)
  qed (simp only: eq finish_images_outcome Let_def)
next
  assume a: "\<not> truthy (msg_media_group_id (upd_message upd2)) \<and>
    get_model (app_user_data st (upd_user_id upd2)) \<notin> {''create'', ''dalle_create''} \<and>
    msg_photo (upd_message upd2) = [] \<and>
    msg_document (upd_message upd2) = Some d \<and>
    take 6 (or_empty (doc_mime_type d)) = ''image/'' \<and>
    download e (doc_file_id d) = Some b2"
  then have eq: "handle_images e upd2 st =
     finish_images e st (upd_user_id upd2) (strip (or_empty (msg_caption (upd_message upd2))))
       ((if get_model (app_user_data st (upd_user_id upd2)) = ''gpt-5.2'' then []
         else pending st (upd_user_id upd2)) @ [b2])"
    by (intro single_document_outcome) blast+
  show "let uid = upd_user_id upd2;
           model = get_model (app_user_data st uid);
           caption = strip (or_empty (msg_caption (upd_message upd2)));
           batch = (if model = ''gpt-5.2'' then [] else pending st uid) @ [b2];
           warn = (if 10 < length batch then [Reply MaxImagesSingle] else []);
           kept = drop (length batch - 10) batch
       in handle_images e upd2 st =
            (if caption \<noteq> [] then dispatch e st uid warn kept caption
             else \<lparr>r_state = put_pending st uid kept,
                   r_actions = warn @ [Reply (ReceivedImages (length kept) (model_label model))],
                   r_calls = [], r_scheduled = [], r_raised = None\<rparr>) \<and>
          length (pending (r_state (handle_images e upd2 st)) uid) \<le> 10"
    unfolding Let_def
  proof (rule conjI)
    show "length (pending (r_state (handle_images e upd2 st)) (upd_user_id upd2)) \<le> 10"
      unfolding eq by (rule finish_images_bound)
  qed (simp only: eq finish_images_outcome Let_def)
next
  assume a: "media_groups st gid = Some g \<and>
    get_model (app_user_data st (g_user_id g)) \<notin> {''create'', ''dalle_create''} \<and>
    (\<forall>f \<in> set (g_file_ids g). download e f \<noteq> None)"
  then have g: "media_groups st gid = Some g"
    and nc: "\<not> (get_model (app_user_data st (g_user_id g)) = ''create'' \<or>
                get_model (app_user_data st (g_user_id g)) = ''dalle_create'')"
    and dl: "\<not> (\<exists>f \<in> set (g_file_ids g). download e f = None)"
    by auto
  have eq: "process_media_group_after_delay e gid st =
     (let st2 = st\<lparr>media_groups := (media_groups st)(gid := None)\<rparr>;
           uid = g_user_id g;
           model = get_model (app_user_data st uid);
           album = map (\<lambda>f. the (download e f)) (g_file_ids g);
           batch = (if model = ''gpt-5.2'' then take 1 album else pending st uid @ album);
           warn = (if 10 < length batch then [Reply MaxImagesAlbum] else []);
           kept = drop (length batch - 10) batch
       in (if g_caption g \<noteq> [] then dispatch e st2 uid warn kept (g_caption g)
             else \<lparr>r_state = put_pending st2 uid kept,
                   r_actions = warn @ [Reply (ReceivedImages (length kept) (model_label model))],
                   r_calls = [], r_scheduled = [], r_raised = None\<rparr>))"
    using nc dl unfolding flush_outcome [OF g] Let_def by (simp only: if_False)
  have bound: "length (pending (r_state (process_media_group_after_delay e gid st)) (g_user_id g)) \<le> 10"
    unfolding eq Let_def by auto
  show "let st2 = st\<lparr>media_groups := (media_groups st)(gid := None)\<rparr>;
           uid = g_user_id g;
           model = get_model (app_user_data st uid);
           album = map (\<lambda>f. the (download e f)) (g_file_ids g);
           batch = (if model = ''gpt-5.2'' then take 1 album else pending st uid @ album);
           warn = (if 10 < length batch then [Reply MaxImagesAlbum] else []);
           kept = drop (length batch - 10) batch
       in process_media_group_after_delay e gid st =
            (if g_caption g \<noteq> [] then dispatch e st2 uid warn kept (g_caption g)
             else \<lparr>r_state = put_pending st2 uid kept,
                   r_actions = warn @ [Reply (ReceivedImages (length kept) (model_label model))],
                   r_calls = [], r_scheduled = [], r_raised = None\<rparr>) \<and>
          length (pending (r_state (process_media_group_after_delay e gid st)) uid) \<le> 10"
    using eq bound unfolding Let_def by (rule conjI)
qed

theorem pending_at_most_ten_witness:
  "(\<forall>u. length (pending full_state u) \<le> 10) \<and>
   (\<forall>u. length (pending (r_state (handle_images env_failing (photo_update ''k'' None None) full_state)) u) \<le> 10) \<and>
   (\<forall>u. length (pending (r_state (process_media_group_after_delay env_failing ''g'' full_state)) u) \<le> 10) \<and>
   \<not> truthy (msg_media_group_id (upd_message (photo_update ''k'' None None))) \<and>
   take 6 (or_empty (Some ''image/png'')) = ''image/'' \<and>
   download env_failing ''a'' = Some ''a'' \<and> download env_failing ''b'' = Some ''b'' \<and>
   pending (r_state (handle_images env_failing (photo_update ''k'' None None) full_state)) 1 =
     [''p1'', ''p2'', ''p3'', ''p4'', ''p5'', ''p6'', ''p7'', ''p8'', ''p9'', ''k''] \<and>
   r_actions (handle_images env_failing (photo_update ''k'' None None) full_state) =
     [Reply MaxImagesSingle, Reply (ReceivedImages 10 ''gpt-image-1'')] \<and>
   pending (r_state (handle_images env_failing (document_update ''d'' ''image/png'') full_state)) 1 =
     [''p1'', ''p2'', ''p3'', ''p4'', ''p5'', ''p6'', ''p7'', ''p8'', ''p9'', ''d''] \<and>
   r_actions (handle_images env_failing (document_update ''d'' ''image/png'') full_state) =
     [Reply MaxImagesSingle, Reply (ReceivedImages 10 ''gpt-image-1'')] \<and>
   pending (r_state (process_media_group_after_delay env_failing ''g'' full_state)) 1 =
     [''p2'', ''p3'', ''p4'', ''p5'', ''p6'', ''p7'', ''p8'', ''p9'', ''a'', ''b''] \<and>
   r_actions (process_media_group_after_delay env_failing ''g'' full_state) =
     [Reply MaxImagesAlbum, Reply (ReceivedImages 10 ''gpt-image-1'')]"
proof -
  let ?u = "photo_update ''k'' None None"
  let ?u2 = "document_update ''d'' ''image/png''"
  let ?d = "\<lparr>doc_file_id = ''d'', doc_mime_type = Some ''image/png''\<rparr>"
  let ?g = "\<lparr>g_file_ids = [''a'', ''b''], g_caption = [], g_user_id = 1,
             g_first_update = photo_update ''a'' None (Some ''g'')\<rparr>"
  note T = pending_at_most_ten [of full_state env_failing ?u "''g''"
      "\<lparr>ps_file_id = ''k'', ps_file_size = 100\<rparr>" "[]" "''k''" ?u2 ?d "''d''" ?g]
  have p: "\<And>u. pending full_state u = ten_images"
    and m: "\<And>u. get_model (app_user_data full_state u) = ''gpt-image-1''"
    by (simp_all add: full_state_def)
  have ml: "model_label ''gpt-image-1'' = ''gpt-image-1''"
    by (simp add: model_label_def MODEL_LABELS_def)
  have st: "strip [] = []" by (simp add: strip_def)
  have inv: "\<forall>u. length (pending full_state u) \<le> 10"
    by (simp add: p ten_images_def)
  have h1: "\<not> truthy (msg_media_group_id (upd_message ?u))" by (simp add: truthy_def)
  have h1': "\<not> truthy (msg_media_group_id (upd_message ?u2))" by (simp add: truthy_def)
  have h2: "get_model (app_user_data full_state (upd_user_id ?u)) \<notin> {''create'', ''dalle_create''}"
    and h2': "get_model (app_user_data full_state (upd_user_id ?u2)) \<notin> {''create'', ''dalle_create''}"
    by (simp_all add: m)
  have h3: "msg_photo (upd_message ?u) = [\<lparr>ps_file_id = ''k'', ps_file_size = 100\<rparr>]" by simp
  have h4: "download env_failing (ps_file_id (max_by_size \<lparr>ps_file_id = ''k'', ps_file_size = 100\<rparr> [])) = Some ''k''"
    by simp
  have h5: "msg_photo (upd_message ?u2) = []" "msg_document (upd_message ?u2) = Some ?d" by simp_all
  have h6: "take 6 (or_empty (doc_mime_type ?d)) = ''image/''" by (simp add: or_empty_def)
  have h6': "take 6 (or_empty (Some ''image/png'')) = ''image/''" by (simp add: or_empty_def)
  have h7: "download env_failing (doc_file_id ?d) = Some ''d''" by simp
  have h8: "media_groups full_state ''g'' = Some ?g" by (simp add: full_state_def)
  have h9: "get_model (app_user_data full_state (g_user_id ?g)) \<notin> {''create'', ''dalle_create''}"
    by (simp add: m)
  have h10: "\<forall>f \<in> set (g_file_ids ?g). download env_failing f \<noteq> None" by simp
  have h10': "download env_failing ''a'' = Some ''a'' \<and> download env_failing ''b'' = Some ''b''" by simp
  have i1: "\<forall>u. length (pending (r_state (handle_images env_failing ?u full_state)) u) \<le> 10"
    and i2: "\<forall>u. length (pending (r_state (process_media_group_after_delay env_failing ''g'' full_state)) u) \<le> 10"
    using T inv by blast+
  have "handle_images env_failing ?u full_state =
      \<lparr>r_state = put_pending full_state 1 [''p1'', ''p2'', ''p3'', ''p4'', ''p5'', ''p6'', ''p7'', ''p8'', ''p9'', ''k''],
       r_actions = [Reply MaxImagesSingle, Reply (ReceivedImages 10 ''gpt-image-1'')],
       r_calls = [], r_scheduled = [], r_raised = None\<rparr>"
    using T h1 h2 h3 h4 by (simp add: p m ml st or_empty_def ten_images_def Let_def)
  then have a: "pending (r_state (handle_images env_failing ?u full_state)) 1 =
     [''p1'', ''p2'', ''p3'', ''p4'', ''p5'', ''p6'', ''p7'', ''p8'', ''p9'', ''k'']"
    and a': "r_actions (handle_images env_failing ?u full_state) =
     [Reply MaxImagesSingle, Reply (ReceivedImages 10 ''gpt-image-1'')]"
    by simp_all
  have "handle_images env_failing ?u2 full_state =
      \<lparr>r_state = put_pending full_state 1 [''p1'', ''p2'', ''p3'', ''p4'', ''p5'', ''p6'', ''p7'', ''p8'', ''p9'', ''d''],
       r_actions = [Reply MaxImagesSingle, Reply (ReceivedImages 10 ''gpt-image-1'')],
       r_calls = [], r_scheduled = [], r_raised = None\<rparr>"
    using T h1' h2' h5 h6 h7 by (simp add: p m ml st or_empty_def ten_images_def Let_def)
  then have b: "pending (r_state (handle_images env_failing ?u2 full_state)) 1 =
     [''p1'', ''p2'', ''p3'', ''p4'', ''p5'', ''p6'', ''p7'', ''p8'', ''p9'', ''d'']"
    and b': "r_actions (handle_images env_failing ?u2 full_state) =
     [Reply MaxImagesSingle, Reply (ReceivedImages 10 ''gpt-image-1'')]"
    by simp_all
  have "process_media_group_after_delay env_failing ''g'' full_state =
      \<lparr>r_state = put_pending (full_state\<lparr>media_groups := (media_groups full_state)(''g'' := None)\<rparr>) 1
                   [''p2'', ''p3'', ''p4'', ''p5'', ''p6'', ''p7'', ''p8'', ''p9'', ''a'', ''b''],
       r_actions = [Reply MaxImagesAlbum, Reply (ReceivedImages 10 ''gpt-image-1'')],
       r_calls = [], r_scheduled = [], r_raised = None\<rparr>"
    using T h8 h9 h10 by (simp add: p m ml ten_images_def Let_def)
  then have c: "pending (r_state (process_media_group_after_delay env_failing ''g'' full_state)) 1 =
     [''p2'', ''p3'', ''p4'', ''p5'', ''p6'', ''p7'', ''p8'', ''p9'', ''a'', ''b'']"
    and c': "r_actions (process_media_group_after_delay env_failing ''g'' full_state) =
     [Reply MaxImagesAlbum, Reply (ReceivedImages 10 ''gpt-image-1'')]"
    by simp_all
  show ?thesis using inv i1 i2 h1 h6' h10' a a' b b' c c' by blast
qed

subsection \<open>Collecting an album\<close>

lemma finish_images_media [simp]:
  "media_groups (r_state (finish_images e st uid caption images)) = media_groups st"
  by (simp add: finish_images_state)




lemma album_part_SomeD:
  "album_part gid u = Some f \<Longrightarrow>
     truthy (msg_media_group_id (upd_message u)) \<and> or_empty (msg_media_group_id (upd_message u)) = gid \<and>
     album_file_id (upd_message u) = Some f \<and> f \<noteq> []"
  by (simp add: album_part_def Let_def split: if_splits option.splits)

lemma album_event_append:
  "media_groups st gid = Some g \<Longrightarrow> album_part gid u = Some f \<Longrightarrow>
   handle_images e u st =
     returned (st\<lparr>media_groups := (media_groups st)(gid \<mapsto> g\<lparr>g_file_ids := g_file_ids g @ [f]\<rparr>)\<rparr>) [] []"
  by (drule album_part_SomeD) (simp add: handle_images_def Let_def)

lemma album_event_open:
  "media_groups st gid = None \<Longrightarrow> album_part gid u = Some f \<Longrightarrow>
   handle_images e u st =
     (returned (st\<lparr>media_groups := (media_groups st)(gid \<mapsto>
          \<lparr>g_file_ids = [f], g_caption = strip (or_empty (msg_caption (upd_message u))),
           g_user_id = upd_user_id u, g_first_update = u\<rparr>)\<rparr>) [] [])\<lparr>r_scheduled := [gid]\<rparr>"
  by (drule album_part_SomeD) (simp add: handle_images_def Let_def)






subsection \<open>The caption of an album\<close>

lemma caption_flush_dispatches:
  assumes g: "media_groups st gid = Some g" and c: "g_caption g \<noteq> []"
    and d: "get_model (app_user_data st (g_user_id g)) \<in> {''create'', ''dalle_create''} \<or>
            download_all e (g_file_ids g) \<noteq> None"
  shows "\<exists>warn images. process_media_group_after_delay e gid st =
           dispatch e (st\<lparr>media_groups := (media_groups st)(gid := None)\<rparr>) (g_user_id g) warn images (g_caption g)"
proof (cases "get_model (app_user_data st (g_user_id g)) \<in> {''create'', ''dalle_create''}")
  case True
  then have "process_media_group_after_delay e gid st =
           dispatch e (st\<lparr>media_groups := (media_groups st)(gid := None)\<rparr>) (g_user_id g) [] [] (g_caption g)"
    using c by (auto simp: flush_present [OF g] process_group_def Let_def)
  then show ?thesis by blast
next
  case False
  with d obtain bs where bs: "download_all e (g_file_ids g) = Some bs" by auto
  have "\<exists>warn images. assemble_album e g m bs s = dispatch e s (g_user_id g) warn images (g_caption g)" for m s
    using c by (auto simp: assemble_album_def Let_def split: prod.splits)
  then show ?thesis
    using False bs by (simp add: flush_present [OF g] process_group_def Let_def)
qed

text \<open>
  C6 as the specification states it fails: an event that matches an open group never
  changes the caption of the group. After a first part without caption, a second part
  with the caption \<open>blue\<close> leaves the caption of the group empty, and the flush stores the
  two images without any backend call.
\<close>

theorem later_caption_counterexample:
  "map_option g_caption (media_groups (receive_images env_failing
       [photo_update ''a'' None (Some ''g'')] (state_with ''gpt-image-1'' [])) ''g'') = Some [] \<and>
   album_part ''g'' (photo_update ''b'' (Some ''blue'') (Some ''g'')) = Some ''b'' \<and>
   strip (or_empty (msg_caption (upd_message (photo_update ''b'' (Some ''blue'') (Some ''g''))))) = ''blue'' \<and>
   map_option g_caption (media_groups (receive_images env_failing
       [photo_update ''a'' None (Some ''g''), photo_update ''b'' (Some ''blue'') (Some ''g'')]
       (state_with ''gpt-image-1'' [])) ''g'') = Some [] \<and>
   r_calls (process_media_group_after_delay env_failing ''g'' (receive_images env_failing
       [photo_update ''a'' None (Some ''g''), photo_update ''b'' (Some ''blue'') (Some ''g'')]
       (state_with ''gpt-image-1'' []))) = [] \<and>
   r_actions (process_media_group_after_delay env_failing ''g'' (receive_images env_failing
       [photo_update ''a'' None (Some ''g''), photo_update ''b'' (Some ''blue'') (Some ''g'')]
       (state_with ''gpt-image-1'' []))) = [Reply (ReceivedImages 2 ''gpt-image-1'')]"
proof -
  let ?u1 = "photo_update ''a'' None (Some ''g'')"
  let ?u2 = "photo_update ''b'' (Some ''blue'') (Some ''g'')"
  let ?s0 = "state_with ''gpt-image-1'' []"
  let ?g1 = "\<lparr>g_file_ids = [''a''], g_caption = [], g_user_id = 1, g_first_update = ?u1\<rparr>"
  let ?g2 = "\<lparr>g_file_ids = [''a'', ''b''], g_caption = [], g_user_id = 1, g_first_update = ?u1\<rparr>"
  let ?s1 = "?s0\<lparr>media_groups := [''g'' \<mapsto> ?g1]\<rparr>"
  let ?s2 = "?s0\<lparr>media_groups := [''g'' \<mapsto> ?g2]\<rparr>"
  have e1: "r_state (handle_images env_failing ?u1 ?s0) = ?s1"
    by (subst album_event_open [where gid = "''g''" and f = "''a''"])
       (simp_all add: or_empty_def strip_def)
  have e2: "r_state (handle_images env_failing ?u2 ?s1) = ?s2"
    by (subst album_event_append [where gid = "''g''" and f = "''b''" and g = ?g1]) simp_all
  have r1: "receive_images env_failing [?u1] ?s0 = ?s1" by (simp add: e1)
  have r2: "receive_images env_failing [?u1, ?u2] ?s0 = ?s2" by (simp add: e1 e2)
  have g2: "media_groups ?s2 ''g'' = Some ?g2" by simp
  have fl: "process_media_group_after_delay env_failing ''g'' ?s2 =
     returned (put_pending (?s2\<lparr>media_groups := (media_groups ?s2)(''g'' := None)\<rparr>) 1 [''a'', ''b''])
       [Reply (ReceivedImages 2 ''gpt-image-1'')] []"
    by (simp add: flush_present [OF g2] process_group_def Let_def assemble_album_store last10_def
        model_label_def MODEL_LABELS_def)
  show ?thesis
    unfolding r1 r2 fl by (simp add: or_empty_def)
qed

text \<open>
  C6, amended. An attachment event that matches an open album group only appends its
  file id to the group: the caption of the group stays what it is, whatever caption the
  event carries. An event that opens a group gives the group its own stripped caption and
  schedules the flush. When the flush dispatches a group with a caption, the instruction
  is the caption of the group, that is the caption of the event that opened it.
\<close>

theorem album_caption_from_first_event:
  "(media_groups st gid = Some g \<and> album_part gid upd = Some f \<longrightarrow>
      handle_images e upd st =
        \<lparr>r_state = st\<lparr>media_groups := (media_groups st)(gid \<mapsto> g\<lparr>g_file_ids := g_file_ids g @ [f]\<rparr>)\<rparr>,
         r_actions = [], r_calls = [], r_scheduled = [], r_raised = None\<rparr>) \<and>
   (media_groups st gid2 = None \<and> album_part gid2 upd2 = Some f2 \<longrightarrow>
      handle_images e upd2 st =
        \<lparr>r_state = st\<lparr>media_groups := (media_groups st)(gid2 \<mapsto>
            \<lparr>g_file_ids = [f2], g_caption = strip (or_empty (msg_caption (upd_message upd2))),
             g_user_id = upd_user_id upd2, g_first_update = upd2\<rparr>)\<rparr>,
         r_actions = [], r_calls = [], r_scheduled = [gid2], r_raised = None\<rparr>) \<and>
   (media_groups st gid = Some g \<and> g_caption g \<noteq> [] \<and>
    (get_model (app_user_data st (g_user_id g)) \<in> {''create'', ''dalle_create''} \<or>
     download_all e (g_file_ids g) \<noteq> None) \<longrightarrow>
      (\<exists>warn images. process_media_group_after_delay e gid st =
         dispatch e (st\<lparr>media_groups := (media_groups st)(gid := None)\<rparr>) (g_user_id g) warn images
           (g_caption g)))"
proof (intro conjI impI)
  assume "media_groups st gid = Some g \<and> album_part gid upd = Some f"
  then have "handle_images e upd st =
     returned (st\<lparr>media_groups := (media_groups st)(gid \<mapsto> g\<lparr>g_file_ids := g_file_ids g @ [f]\<rparr>)\<rparr>) [] []"
    by (intro album_event_append) blast+
  then show "handle_images e upd st =
        \<lparr>r_state = st\<lparr>media_groups := (media_groups st)(gid \<mapsto> g\<lparr>g_file_ids := g_file_ids g @ [f]\<rparr>)\<rparr>,
         r_actions = [], r_calls = [], r_scheduled = [], r_raised = None\<rparr>"
    by (simp add: returned_def)
next
  assume "media_groups st gid2 = None \<and> album_part gid2 upd2 = Some f2"
  then have "handle_images e upd2 st =
     (returned (st\<lparr>media_groups := (media_groups st)(gid2 \<mapsto>
          \<lparr>g_file_ids = [f2], g_caption = strip (or_empty (msg_caption (upd_message upd2))),
           g_user_id = upd_user_id upd2, g_first_update = upd2\<rparr>)\<rparr>) [] [])\<lparr>r_scheduled := [gid2]\<rparr>"
    by (intro album_event_open) blast+
  then show "handle_images e upd2 st =
        \<lparr>r_state = st\<lparr>media_groups := (media_groups st)(gid2 \<mapsto>
            \<lparr>g_file_ids = [f2], g_caption = strip (or_empty (msg_caption (upd_message upd2))),
             g_user_id = upd_user_id upd2, g_first_update = upd2\<rparr>)\<rparr>,
         r_actions = [], r_calls = [], r_scheduled = [gid2], r_raised = None\<rparr>"
    by (simp add: returned_def)
next
  assume "media_groups st gid = Some g \<and> g_caption g \<noteq> [] \<and>
    (get_model (app_user_data st (g_user_id g)) \<in> {''create'', ''dalle_create''} \<or>
     download_all e (g_file_ids g) \<noteq> None)"
  then show "\<exists>warn images. process_media_group_after_delay e gid st =
         dispatch e (st\<lparr>media_groups := (media_groups st)(gid := None)\<rparr>) (g_user_id g) warn images
           (g_caption g)"
    using caption_flush_dispatches by blast
qed

theorem album_caption_from_first_event_witness:
  "media_groups caption_state ''g'' =
     Some \<lparr>g_file_ids = [''a''], g_caption = ''blue'', g_user_id = 1,
           g_first_update = photo_update ''a'' None (Some ''g'')\<rparr> \<and>
   album_part ''g'' (photo_update ''b'' None (Some ''g'')) = Some ''b'' \<and>
   media_groups caption_state ''h'' = None \<and>
   album_part ''h'' (photo_update ''c'' (Some ''blue'') (Some ''h'')) = Some ''c'' \<and>
   download_all env_failing [''a''] \<noteq> None \<and>
   map_option g_caption (media_groups
     (r_state (handle_images env_failing (photo_update ''b'' None (Some ''g'')) caption_state)) ''g'') = Some ''blue'' \<and>
   map_option g_file_ids (media_groups
     (r_state (handle_images env_failing (photo_update ''b'' None (Some ''g'')) caption_state)) ''g'') = Some [''a'', ''b''] \<and>
   map_option g_caption (media_groups
     (r_state (handle_images env_failing (photo_update ''c'' (Some ''blue'') (Some ''h'')) caption_state)) ''h'') = Some ''blue'' \<and>
   pending (r_state (process_media_group_after_delay env_failing ''g'' caption_state)) 1 = []"
proof -
  let ?g = "\<lparr>g_file_ids = [''a''], g_caption = ''blue'', g_user_id = 1,
           g_first_update = photo_update ''a'' None (Some ''g'')\<rparr>"
  let ?u = "photo_update ''b'' None (Some ''g'')"
  let ?u2 = "photo_update ''c'' (Some ''blue'') (Some ''h'')"
  note T = album_caption_from_first_event [of caption_state "''g''" ?g ?u "''b''" env_failing
      "''h''" ?u2 "''c''"]
  have g: "media_groups caption_state ''g'' = Some ?g" by (simp add: caption_state_def)
  have h: "media_groups caption_state ''h'' = None" by (simp add: caption_state_def)
  have p: "album_part ''g'' ?u = Some ''b''" by simp
  have p2: "album_part ''h'' ?u2 = Some ''c''" by simp
  have d: "download_all env_failing [''a''] \<noteq> None" by simp
  have "handle_images env_failing ?u caption_state =
        \<lparr>r_state = caption_state\<lparr>media_groups := (media_groups caption_state)(''g'' \<mapsto> ?g\<lparr>g_file_ids := g_file_ids ?g @ [''b'']\<rparr>)\<rparr>,
         r_actions = [], r_calls = [], r_scheduled = [], r_raised = None\<rparr>"
    using T g p by blast
  then have a: "map_option g_caption (media_groups (r_state (handle_images env_failing ?u caption_state)) ''g'') = Some ''blue''"
    and a': "map_option g_file_ids (media_groups (r_state (handle_images env_failing ?u caption_state)) ''g'') = Some [''a'', ''b'']"
    by simp_all
  have "handle_images env_failing ?u2 caption_state =
        \<lparr>r_state = caption_state\<lparr>media_groups := (media_groups caption_state)(''h'' \<mapsto>
            \<lparr>g_file_ids = [''c''], g_caption = strip (or_empty (msg_caption (upd_message ?u2))),
             g_user_id = upd_user_id ?u2, g_first_update = ?u2\<rparr>)\<rparr>,
         r_actions = [], r_calls = [], r_scheduled = [''h''], r_raised = None\<rparr>"
    using T h p2 by blast
  then have b: "map_option g_caption (media_groups (r_state (handle_images env_failing ?u2 caption_state)) ''h'') = Some ''blue''"
    by (simp add: or_empty_def)
  have "\<exists>warn images. process_media_group_after_delay env_failing ''g'' caption_state =
         dispatch env_failing (caption_state\<lparr>media_groups := (media_groups caption_state)(''g'' := None)\<rparr>)
           (g_user_id ?g) warn images (g_caption ?g)"
    using T g d by simp
  then have c: "pending (r_state (process_media_group_after_delay env_failing ''g'' caption_state)) 1 = []"
    by auto
  show ?thesis using g p h p2 d a a' b c by blast
qed

subsection \<open>The legacy edit model\<close>

lemma process_dalle_calls:
  assumes "model_or_default model = ''dall-e-2''" and "1 < length images"
  shows "snd (process e images prompt model) =
     (if length images \<le> 10 \<and> strip prompt \<noteq> [] then
        (case to_api_format e (hd images) 0 of
           None \<Rightarrow> []
         | Some a \<Rightarrow>
             [Edit \<lparr>er_model = ''dall-e-2'', er_image = [a],
                    er_prompt = SYSTEM_PROMPT @ strip prompt, er_quality = QUALITY,
                    er_size = ''1024x1024'', er_output_format = OUTPUT_FORMAT\<rparr>])
      else [])"
proof -
  obtain x xs where i: "images = x # xs" using assms(2) by (cases images) auto
  have s: "strip [] = []" by (simp add: strip_def)
  show ?thesis
    using assms s
    by (auto simp: process_def Let_def i split: option.splits image_response.splits)
qed

text \<open>
  C9. With the model \<open>dall-e-2\<close>, for every batch of more than one image handed to
  \<open>process_and_reply\<close>, the backend calls made are at most one edit call, and its only
  image is the converted first image of the batch: the call is made when the batch has at
  most 10 images, the prompt is not blank and the first image converts, and no call is
  made otherwise.
\<close>

theorem legacy_edit_first_image_only:
  "get_model ud = ''dall-e-2'' \<Longrightarrow> 1 < length images \<Longrightarrow>
   snd (process_and_reply e ud images prompt) =
     (if length images \<le> 10 \<and> strip prompt \<noteq> [] then
        (case to_api_format e (hd images) 0 of
           None \<Rightarrow> []
         | Some a \<Rightarrow>
             [Edit \<lparr>er_model = ''dall-e-2'', er_image = [a],
                    er_prompt = SYSTEM_PROMPT @ strip prompt, er_quality = QUALITY,
                    er_size = ''1024x1024'', er_output_format = OUTPUT_FORMAT\<rparr>])
      else [])"
proof -
  assume m: "get_model ud = ''dall-e-2''" and l: "1 < length images"
  have d: "model_or_default (Some ''dall-e-2'') = ''dall-e-2''" by (simp add: model_or_default_def)
  have "snd (process_and_reply e ud images prompt) = snd (process e images prompt (Some ''dall-e-2''))"
    using m by (simp add: process_and_reply_def edit_and_reply_def Let_def
        split: prod.splits sum.splits py_error.splits)
  then show ?thesis using process_dalle_calls [OF d l] by simp
qed

theorem legacy_edit_first_image_only_witness:
  "get_model \<lparr>ud_model = Some ''dall-e-2'', ud_pending_images = None\<rparr> = ''dall-e-2'' \<and>
   1 < length [''x'', ''y''] \<and>
   snd (process_and_reply env_failing \<lparr>ud_model = Some ''dall-e-2'', ud_pending_images = None\<rparr>
          [''x'', ''y''] ''blue'') =
     [Edit \<lparr>er_model = ''dall-e-2'', er_image = [(''image.png'', ''x'', ''image/png'')],
            er_prompt = SYSTEM_PROMPT @ ''blue'', er_quality = QUALITY,
            er_size = ''1024x1024'', er_output_format = OUTPUT_FORMAT\<rparr>]"
proof -
  have m: "get_model \<lparr>ud_model = Some ''dall-e-2'', ud_pending_images = None\<rparr> = ''dall-e-2''"
    by (simp add: get_model_def)
  have l: "1 < length [''x'', ''y'']" by simp
  show ?thesis
    using m l legacy_edit_first_image_only [OF m l, of env_failing "''blue''"] by simp
qed

end
